theory Spec2Isabelle
  imports Main "HOL-Library.Multiset"
begin

section \<open>Python strings\<close>

text \<open>
  A Python \<open>str\<close> is a sequence of Unicode code points. The text of an annotation is
  modelled as such a sequence, \<open>ustr\<close>; \<open>uni\<close> writes an ASCII literal as one and
  \<open>cp\<close> a single ASCII character.

  \<open>str.isspace\<close>, \<open>str.isdigit\<close>, \<open>str.isalpha\<close> and \<open>str.lower\<close> read the
  Unicode character database of the interpreter. On ASCII their values are written out
  below; beyond ASCII they are taken from a parameter, \<open>unicode_db\<close>, so that what is
  proved holds whatever the database says. \<open>str.lower\<close> is not a map of single
  characters beyond ASCII (it can change the length, and it reads the context of a
  sigma), so the database gives it for whole strings.
\<close>

type_synonym ustr = "nat list"

definition uni :: "string \<Rightarrow> ustr" where
  "uni s = map of_char s"

definition cp :: "char \<Rightarrow> nat" where
  "cp ch = of_char ch"

record unicode_db =
  db_isspace :: "nat \<Rightarrow> bool"
  db_isdigit :: "nat \<Rightarrow> bool"
  db_isalpha :: "nat \<Rightarrow> bool"
  db_lower :: "ustr \<Rightarrow> ustr"

text \<open>
  ASCII whitespace is tab, line feed, vertical tab, form feed, carriage return, the four
  separators 28 to 31 and the space; the digits are 48 to 57; the letters are 65 to 90
  and 97 to 122.
\<close>

definition isspace_c :: "unicode_db \<Rightarrow> nat \<Rightarrow> bool" where
  "isspace_c db c =
     (if c < 128 then c \<in> set [9, 10, 11, 12, 13, 28, 29, 30, 31, 32] else db_isspace db c)"

definition isdigit_c :: "unicode_db \<Rightarrow> nat \<Rightarrow> bool" where
  "isdigit_c db c = (if c < 128 then 48 \<le> c \<and> c \<le> 57 else db_isdigit db c)"

definition isalpha_c :: "unicode_db \<Rightarrow> nat \<Rightarrow> bool" where
  "isalpha_c db c =
     (if c < 128 then (65 \<le> c \<and> c \<le> 90) \<or> (97 \<le> c \<and> c \<le> 122) else db_isalpha db c)"

definition lower_ascii_c :: "nat \<Rightarrow> nat" where
  "lower_ascii_c c = (if 65 \<le> c \<and> c \<le> 90 then c + 32 else c)"

text \<open>\<open>s.lower()\<close>: on an ASCII string only the letters A to Z change.\<close>

definition lower :: "unicode_db \<Rightarrow> ustr \<Rightarrow> ustr" where
  "lower db s = (if list_all (\<lambda>c. c < 128) s then map lower_ascii_c s else db_lower db s)"

text \<open>\<open>s.strip()\<close>: leading and trailing whitespace removed.\<close>

definition strip :: "unicode_db \<Rightarrow> ustr \<Rightarrow> ustr" where
  "strip db s = rev (dropWhile (isspace_c db) (rev (dropWhile (isspace_c db) s)))"

text \<open>\<open>s.isdigit()\<close>: false on the empty string.\<close>

definition isdigit :: "unicode_db \<Rightarrow> ustr \<Rightarrow> bool" where
  "isdigit db s = (s \<noteq> [] \<and> list_all (isdigit_c db) s)"

text \<open>\<open>s.split(sep)\<close> for a one-character separator; the result is never empty.\<close>

fun split :: "'a \<Rightarrow> 'a list \<Rightarrow> 'a list list" where
  "split sep [] = [[]]"
| "split sep (c # cs) =
     (if c = sep then [] # split sep cs
      else (case split sep cs of
              [] \<Rightarrow> [[c]]
            | p # ps \<Rightarrow> (c # p) # ps))"

text \<open>\<open>s.startswith(p)\<close>\<close>

definition startswith :: "'a list \<Rightarrow> 'a list \<Rightarrow> bool" where
  "startswith s p = (take (length p) s = p)"

text \<open>\<open>sub in s\<close> on strings: \<open>sub\<close> occurs in \<open>s\<close> as a contiguous substring.\<close>

fun contains :: "'a list \<Rightarrow> 'a list \<Rightarrow> bool" where
  "contains [] sub = (sub = [])"
| "contains (c # cs) sub = (startswith (c # cs) sub \<or> contains cs sub)"

text \<open>
  The names of cluster objects, the label selectors and the texts of the log are only
  concatenated and compared; they are \<open>string\<close>s. The one method applied to such a
  text is \<open>kind.lower()\<close>, on the four kind names, which are ASCII.
\<close>

definition lower_kind_c :: "char \<Rightarrow> char" where
  "lower_kind_c c =
     (case map_of (zip ''ABCDEFGHIJKLMNOPQRSTUVWXYZ'' ''abcdefghijklmnopqrstuvwxyz'') c of
        None \<Rightarrow> c
      | Some l \<Rightarrow> l)"

definition lower_kind :: "string \<Rightarrow> string" where
  "lower_kind s = map lower_kind_c s"

text \<open>Decimal digits of a natural number, as \<open>str(n)\<close> prints them.\<close>

definition digit_c :: "nat \<Rightarrow> char" where
  "digit_c d = ''0123456789'' ! (d mod 10)"

fun str_nat :: "nat \<Rightarrow> string" where
  "str_nat n = (if n < 10 then [digit_c n] else str_nat (n div 10) @ [digit_c n])"

declare str_nat.simps [simp del]

text \<open>Zero-padded fields of \<open>strftime\<close>: \<open>%H\<close>, \<open>%M\<close>, \<open>%S\<close>, \<open>%m\<close>, \<open>%d\<close> (two digits) and \<open>%Y\<close> (four).\<close>

definition pad2 :: "nat \<Rightarrow> string" where
  "pad2 n = (if n < 10 then CHR ''0'' # str_nat n else str_nat n)"

definition pad4 :: "nat \<Rightarrow> string" where
  "pad4 n = replicate (4 - length (str_nat n)) CHR ''0'' @ str_nat n"

section \<open>Instants\<close>

text \<open>
  A \<open>datetime.datetime\<close> in UTC. Python keeps \<open>1 \<le> month \<le> 12\<close>, the day within
  the month, \<open>hour < 24\<close>, \<open>minute < 60\<close>, \<open>second < 60\<close> and \<open>1 \<le> year \<le> 9999\<close>.
\<close>

record datetime =
  year :: nat
  month :: nat
  day :: nat
  hour :: nat
  minute :: nat
  second :: nat
  microsecond :: nat

definition valid_datetime :: "datetime \<Rightarrow> bool" where
  "valid_datetime t =
     (1 \<le> year t \<and> year t \<le> 9999 \<and> 1 \<le> month t \<and> month t \<le> 12 \<and>
      1 \<le> day t \<and> day t \<le> 31 \<and> hour t < 24 \<and> minute t < 60 \<and> second t < 60 \<and>
      microsecond t < 1000000)"

text \<open>The proleptic Gregorian ordinal and the weekday as \<open>datetime\<close> computes them (Monday is 0).\<close>

definition is_leap :: "nat \<Rightarrow> bool" where
  "is_leap y = (y mod 4 = 0 \<and> (y mod 100 \<noteq> 0 \<or> y mod 400 = 0))"

definition days_before_year :: "nat \<Rightarrow> nat" where
  "days_before_year y = (let y1 = y - 1 in y1 * 365 + y1 div 4 - y1 div 100 + y1 div 400)"

definition days_before_month :: "nat \<Rightarrow> nat \<Rightarrow> nat" where
  "days_before_month y m =
     [0, 0, 31, 59, 90, 120, 151, 181, 212, 243, 273, 304, 334] ! (if m \<le> 12 then m else 0)
     + (if m > 2 \<and> is_leap y then 1 else 0)"

definition toordinal :: "datetime \<Rightarrow> nat" where
  "toordinal t = days_before_year (year t) + days_before_month (year t) (month t) + day t"

definition weekday :: "datetime \<Rightarrow> nat" where
  "weekday t = (toordinal t + 6) mod 7"

text \<open>
  \<open>strftime\<close> with the formats the operator uses, in the C locale; \<open>%Y\<close> prints the
  year with four digits. A month outside \<open>1..12\<close> cannot occur in a \<open>datetime\<close>; the
  model prints nothing for it.
\<close>

definition strftime_HM :: "datetime \<Rightarrow> string" where
  "strftime_HM t = pad2 (hour t) @ '':'' @ pad2 (minute t)"

definition strftime_Y :: "datetime \<Rightarrow> string" where
  "strftime_Y t = pad4 (year t)"

definition strftime_b :: "datetime \<Rightarrow> string" where
  "strftime_b t =
     (if 1 \<le> month t \<and> month t \<le> 12
      then [''Jan'', ''Feb'', ''Mar'', ''Apr'', ''May'', ''Jun'',
            ''Jul'', ''Aug'', ''Sep'', ''Oct'', ''Nov'', ''Dec''] ! (month t - 1)
      else [])"

definition strftime_a :: "datetime \<Rightarrow> string" where
  "strftime_a t = [''Mon'', ''Tue'', ''Wed'', ''Thu'', ''Fri'', ''Sat'', ''Sun''] ! weekday t"

text \<open>\<open>strftime('%Y%m%d-%H%M%S')\<close>, the timestamp of a backup's name.\<close>

definition strftime_backup :: "datetime \<Rightarrow> string" where
  "strftime_backup t =
     pad4 (year t) @ pad2 (month t) @ pad2 (day t) @ ''-'' @
     pad2 (hour t) @ pad2 (minute t) @ pad2 (second t)"

section \<open>Schedule parsing and checking\<close>

text \<open>
  \<open>parse_schedule\<close> returns the tuple
  \<open>(year_spec, month_spec, day_spec, date_spec, time_spec)\<close>; the record names its
  components. \<open>time_spec\<close> is \<open>None\<close> or a string.
\<close>

record schedule =
  year_spec :: ustr
  month_spec :: ustr
  day_spec :: ustr
  date_spec :: ustr
  time_spec :: "ustr option"

definition wildcards :: schedule where
  "wildcards =
     \<lparr>year_spec = uni ''*'', month_spec = uni ''*'', day_spec = uni ''*'', date_spec = uni ''*'',
      time_spec = None\<rparr>"

definition month_abbrs :: "ustr list" where
  "month_abbrs = map uni [''jan'', ''feb'', ''mar'', ''apr'', ''may'', ''jun'',
                        ''jul'', ''aug'', ''sep'', ''oct'', ''nov'', ''dec'']"

text \<open>
  The body of the loop over the parts: which of the four variables a non-empty part is
  assigned to, by the \<open>if\<close>/\<open>elif\<close> chain in the source's order. A part that matches
  no branch (or is empty) is assigned to none.
\<close>

datatype category = Year | Month | DayOfWeek | DayOfMonth

definition classify :: "unicode_db \<Rightarrow> ustr \<Rightarrow> category option" where
  "classify db part =
     (if part = [] then None
      else if length part = 4 \<and> isdigit db part then Some Year
      else if list_ex (isalpha_c db) part then
        (if list_ex (\<lambda>m. contains part m) month_abbrs then Some Month else Some DayOfWeek)
      else if list_all (\<lambda>c. isdigit_c db c \<or> c = cp CHR '','') part then Some DayOfMonth
      else None)"

definition assign :: "unicode_db \<Rightarrow> ustr \<Rightarrow> schedule \<Rightarrow> schedule" where
  "assign db part sp =
     (case classify db part of
        None \<Rightarrow> sp
      | Some Year \<Rightarrow> sp\<lparr>year_spec := part\<rparr>
      | Some Month \<Rightarrow> sp\<lparr>month_spec := part\<rparr>
      | Some DayOfWeek \<Rightarrow> sp\<lparr>day_spec := part\<rparr>
      | Some DayOfMonth \<Rightarrow> sp\<lparr>date_spec := part\<rparr>)"

text \<open>
  The parts of an annotation: split at \<open>;\<close>, each stripped and lowercased. The last part
  is the time when it contains a colon; the other parts are then the ones classified.
\<close>

definition schedule_parts :: "unicode_db \<Rightarrow> ustr \<Rightarrow> ustr list" where
  "schedule_parts db schedule_annotation =
     map (\<lambda>p. lower db (strip db p)) (split (cp CHR '';'') schedule_annotation)"

definition time_part :: "ustr list \<Rightarrow> ustr option" where
  "time_part parts =
     (if parts \<noteq> [] \<and> cp CHR '':'' \<in> set (last parts) then Some (last parts) else None)"

definition other_parts :: "ustr list \<Rightarrow> ustr list" where
  "other_parts parts =
     (if parts \<noteq> [] \<and> cp CHR '':'' \<in> set (last parts) then butlast parts else parts)"

definition parse_schedule :: "unicode_db \<Rightarrow> ustr \<Rightarrow> schedule" where
  "parse_schedule db schedule_annotation =
     (if schedule_annotation = [] then wildcards
      else
        let parts = schedule_parts db schedule_annotation
        in (fold (assign db) (other_parts parts) wildcards)\<lparr>time_spec := time_part parts\<rparr>)"

text \<open>
  The checks of \<open>is_schedule_active\<close> on the parsed tuple, in the source's order: time,
  year, month, day of week, day of month.
\<close>

definition schedule_matches :: "unicode_db \<Rightarrow> schedule \<Rightarrow> datetime \<Rightarrow> bool" where
  "schedule_matches db sp now_utc =
     (if time_spec sp = None \<or> Some (uni (strftime_HM now_utc)) \<noteq> time_spec sp then False
      else if year_spec sp \<noteq> uni ''*'' \<and> uni (strftime_Y now_utc) \<noteq> year_spec sp then False
      else if month_spec sp \<noteq> uni ''*'' \<and>
              \<not> list_ex (\<lambda>m. startswith (lower db (uni (strftime_b now_utc))) (take 3 m))
                   (map (strip db) (split (cp CHR '','') (month_spec sp))) then False
      else if day_spec sp \<noteq> uni ''*'' \<and>
              \<not> list_ex (\<lambda>d. startswith (lower db (uni (strftime_a now_utc))) (take 3 d))
                   (map (strip db) (split (cp CHR '','') (day_spec sp))) then False
      else if date_spec sp \<noteq> uni ''*'' \<and>
              uni (str_nat (day now_utc)) \<notin> set (map (strip db) (split (cp CHR '','') (date_spec sp)))
           then False
      else True)"

text \<open>The annotation is \<open>None\<close> when the resource does not carry it.\<close>

definition is_schedule_active :: "unicode_db \<Rightarrow> ustr option \<Rightarrow> datetime \<Rightarrow> bool" where
  "is_schedule_active db schedule_annotation now_utc =
     (case schedule_annotation of
        None \<Rightarrow> False
      | Some a \<Rightarrow> if a = [] then False else schedule_matches db (parse_schedule db a) now_utc)"

section \<open>Python values, exceptions and the log\<close>

text \<open>
  The state dictionaries, and whatever \<open>json.loads\<close> returns from a stored backup.
  \<open>JNull\<close> is Python's \<open>None\<close>; a dictionary is an association list with distinct
  keys. JSON numbers are integers here.
\<close>

datatype json =
    JNull
  | JBool bool
  | JInt int
  | JStr string
  | JList "json list"
  | JDict "(string \<times> json) list"

text \<open>Truth value of a Python object, as \<open>if state:\<close> and \<open>not state\<close> test it.\<close>

fun truthy :: "json \<Rightarrow> bool" where
  "truthy JNull = False"
| "truthy (JBool b) = b"
| "truthy (JInt n) = (n \<noteq> 0)"
| "truthy (JStr s) = (s \<noteq> [])"
| "truthy (JList xs) = (xs \<noteq> [])"
| "truthy (JDict d) = (d \<noteq> [])"

text \<open>
  The exceptions the code distinguishes: \<open>kubernetes.client.ApiException\<close> with its
  HTTP status, \<open>json.JSONDecodeError\<close>, and the others, which only
  \<open>except Exception\<close> catches.
\<close>

datatype exn =
    ApiException nat
  | JSONDecodeError
  | TypeError
  | AttributeError
  | KeyError
  | IndexError
  | OtherException

text \<open>\<open>state.get(k, default)\<close>, \<open>k in state\<close> and \<open>state[k]\<close> on a Python object.\<close>

fun py_get :: "json \<Rightarrow> string \<Rightarrow> json \<Rightarrow> exn + json" where
  "py_get (JDict d) k dflt = Inr (case map_of d k of None \<Rightarrow> dflt | Some v \<Rightarrow> v)"
| "py_get _ k dflt = Inl AttributeError"

fun py_in :: "string \<Rightarrow> json \<Rightarrow> exn + bool" where
  "py_in k (JDict d) = Inr (map_of d k \<noteq> None)"
| "py_in k (JList xs) = Inr (JStr k \<in> set xs)"
| "py_in k (JStr s) = Inr (contains s k)"
| "py_in k _ = Inl TypeError"

fun py_getitem :: "json \<Rightarrow> string \<Rightarrow> exn + json" where
  "py_getitem (JDict d) k = (case map_of d k of None \<Rightarrow> Inl KeyError | Some v \<Rightarrow> Inr v)"
| "py_getitem _ k = Inl TypeError"

text \<open>
  A ConfigMap data value is a string. \<open>Encoded j\<close> is a text that \<open>json.loads\<close>
  decodes to \<open>j\<close>, as \<open>json.dumps(j)\<close> is; \<open>Malformed s\<close> is the text \<open>s\<close>, which
  \<open>json.loads\<close> rejects.
\<close>

datatype json_text = Encoded json | Malformed string

definition json_dumps :: "json \<Rightarrow> json_text" where
  "json_dumps j = Encoded j"

fun json_loads :: "json_text \<Rightarrow> exn + json" where
  "json_loads (Encoded j) = Inr j"
| "json_loads (Malformed s) = Inl JSONDecodeError"

fun nonempty_text :: "json_text \<Rightarrow> bool" where
  "nonempty_text (Encoded j) = True"
| "nonempty_text (Malformed s) = (s \<noteq> [])"

section \<open>The cluster API\<close>

datatype kind = Deployment | StatefulSet | HorizontalPodAutoscaler | CronJob

fun kind_str :: "kind \<Rightarrow> string" where
  "kind_str Deployment = ''Deployment''"
| "kind_str StatefulSet = ''StatefulSet''"
| "kind_str HorizontalPodAutoscaler = ''HorizontalPodAutoscaler''"
| "kind_str CronJob = ''CronJob''"

text \<open>
  A ConfigMap as the code reads and writes it. The creation timestamp is a point on the
  time line (timezone-aware, set by the API server), or \<open>None\<close>.
\<close>

record configmap =
  cm_name :: string
  cm_namespace :: string
  cm_labels :: "(string \<times> string) list"
  cm_creation_timestamp :: "int option"
  cm_data :: "(string \<times> json_text) list option"

datatype api_call =
    ListConfigMap string string
  | CreateConfigMap string configmap
  | DeleteConfigMap string string
  | ReadDeployment string string
  | ReadStatefulSet string string
  | ReadHPA string string
  | ReadCronJob string string
  | PatchDeployment string string json
  | PatchStatefulSet string string json
  | PatchCronJob string string json
  | DeleteHPA string string
  | CreateHPA string json

datatype level = INFO | WARNING | ERROR

text \<open>
  What one run leaves behind, in order: each API call with the exception it raised, if
  any, and each log record (its level and the fixed text of its message).
\<close>

datatype event = Call api_call "exn option" | Log level string

text \<open>
  The collaborators of the module: the four API clients, the clock, the retention
  setting and the character database of the interpreter. Every API function answers from the history of the run so far, so a call may
  see the effect of earlier calls; it returns its result or raises. A read returns the
  field of the object's \<open>spec\<close> that the code uses.
\<close>

record env =
  list_namespaced_config_map :: "event list \<Rightarrow> string \<Rightarrow> string \<Rightarrow> exn + configmap list"
  create_namespaced_config_map :: "event list \<Rightarrow> string \<Rightarrow> configmap \<Rightarrow> exn option"
  delete_namespaced_config_map :: "event list \<Rightarrow> string \<Rightarrow> string \<Rightarrow> exn option"
  read_namespaced_deployment :: "event list \<Rightarrow> string \<Rightarrow> string \<Rightarrow> exn + int option"
  read_namespaced_stateful_set :: "event list \<Rightarrow> string \<Rightarrow> string \<Rightarrow> exn + int option"
  read_namespaced_horizontal_pod_autoscaler :: "event list \<Rightarrow> string \<Rightarrow> string \<Rightarrow> exn + json"
  read_namespaced_cron_job :: "event list \<Rightarrow> string \<Rightarrow> string \<Rightarrow> exn + bool option"
  patch_namespaced_deployment :: "event list \<Rightarrow> string \<Rightarrow> string \<Rightarrow> json \<Rightarrow> exn option"
  patch_namespaced_stateful_set :: "event list \<Rightarrow> string \<Rightarrow> string \<Rightarrow> json \<Rightarrow> exn option"
  patch_namespaced_cron_job :: "event list \<Rightarrow> string \<Rightarrow> string \<Rightarrow> json \<Rightarrow> exn option"
  delete_namespaced_horizontal_pod_autoscaler :: "event list \<Rightarrow> string \<Rightarrow> string \<Rightarrow> exn option"
  create_namespaced_horizontal_pod_autoscaler :: "event list \<Rightarrow> string \<Rightarrow> json \<Rightarrow> exn option"
  utc_now :: "event list \<Rightarrow> datetime"
  MAX_BACKUPS_TO_RETAIN :: int
  unicode :: unicode_db

definition ANNOTATION_NS_CONTROL :: string where "ANNOTATION_NS_CONTROL = ''ks_scale''"
definition ANNOTATION_SCALE_UP :: string where "ANNOTATION_SCALE_UP = ''ks_scale_up''"
definition ANNOTATION_SCALE_DOWN :: string where "ANNOTATION_SCALE_DOWN = ''ks_scale_down''"
definition CONFIGMAP_PREFIX :: string where "CONFIGMAP_PREFIX = ''ks-backup''"
definition OPERATOR_LABEL :: string where "OPERATOR_LABEL = ''app.kubernetes.io/managed-by''"
definition OPERATOR_VALUE :: string where "OPERATOR_VALUE = ''kubescaler''"

section \<open>State management and pruning\<close>

text \<open>
  Every function below takes the collaborators and the history so far, and returns what
  the Python function returns or raises (\<open>Inl\<close> the exception that escapes it) together
  with the extended history.
\<close>

definition label_selector :: "kind \<Rightarrow> string \<Rightarrow> string" where
  "label_selector kind name =
     OPERATOR_LABEL @ ''='' @ OPERATOR_VALUE @ '',resource-kind='' @ kind_str kind @
     '',resource-name='' @ name"

text \<open>
  \<open>sorted(items, key=lambda cm: cm.metadata.creation_timestamp or datetime.datetime.min)\<close>.
  The timestamps of the API are timezone-aware and \<open>datetime.min\<close> is naive: Python
  refuses to compare the two, so the sort raises \<open>TypeError\<close> when some items carry a
  timestamp and others none. The sort is stable.
\<close>

definition creation_key :: "configmap \<Rightarrow> int" where
  "creation_key cm = (case cm_creation_timestamp cm of None \<Rightarrow> 0 | Some t \<Rightarrow> t)"

definition comparable :: "configmap list \<Rightarrow> bool" where
  "comparable items =
     (list_all (\<lambda>cm. cm_creation_timestamp cm = None) items \<or>
      list_all (\<lambda>cm. cm_creation_timestamp cm \<noteq> None) items)"

definition sorted_by_creation :: "configmap list \<Rightarrow> exn + configmap list" where
  "sorted_by_creation items =
     (if comparable items then Inr (sort_key creation_key items) else Inl TypeError)"

text \<open>With \<open>reverse=True\<close> the newest comes first, and equal keys keep their order.\<close>

definition sorted_by_creation_reverse :: "configmap list \<Rightarrow> exn + configmap list" where
  "sorted_by_creation_reverse items =
     (if comparable items then Inr (rev (sort_key creation_key (rev items))) else Inl TypeError)"

text \<open>The loop over \<open>cms_to_delete\<close>: a failed deletion is logged and the loop goes on.\<close>

fun delete_cms :: "env \<Rightarrow> event list \<Rightarrow> string \<Rightarrow> configmap list \<Rightarrow> (exn + unit) \<times> event list" where
  "delete_cms env hist namespace [] = (Inr (), hist)"
| "delete_cms env hist namespace (cm # cms) =
     (let h1 = hist @ [Log INFO ''Pruning old backup ConfigMap''];
          r = delete_namespaced_config_map env h1 (cm_name cm) namespace;
          h2 = h1 @ [Call (DeleteConfigMap (cm_name cm) namespace) r]
      in case r of
           None \<Rightarrow> delete_cms env h2 namespace cms
         | Some (ApiException status) \<Rightarrow>
             delete_cms env (h2 @ [Log ERROR ''Failed to delete ConfigMap'']) namespace cms
         | Some e \<Rightarrow> (Inl e, h2))"

text \<open>
  The selection of \<open>prune_old_backups\<close>: \<open>sorted_cms[:-MAX_BACKUPS_TO_RETAIN]\<close>, all
  but the last \<open>MAX_BACKUPS_TO_RETAIN\<close> of the items sorted by creation time. It is
  computed only for a positive limit that the number of items exceeds.
\<close>

definition cms_to_delete :: "int \<Rightarrow> configmap list \<Rightarrow> exn + configmap list" where
  "cms_to_delete max_backups items =
     (case sorted_by_creation items of
        Inl e \<Rightarrow> Inl e
      | Inr sorted_cms \<Rightarrow> Inr (take (length sorted_cms - nat max_backups) sorted_cms))"

definition prune_old_backups ::
    "env \<Rightarrow> event list \<Rightarrow> string \<Rightarrow> kind \<Rightarrow> string \<Rightarrow> (exn + unit) \<times> event list" where
  "prune_old_backups env hist namespace kind name =
     (if MAX_BACKUPS_TO_RETAIN env \<le> 0 then (Inr (), hist)
      else
        let r = list_namespaced_config_map env hist namespace (label_selector kind name)
        in case r of
             Inl e \<Rightarrow>
               (let h1 = hist @ [Call (ListConfigMap namespace (label_selector kind name)) (Some e)]
                in case e of
                     ApiException status \<Rightarrow> (Inr (), h1 @ [Log ERROR ''Failed to prune old backups''])
                   | _ \<Rightarrow> (Inl e, h1))
           | Inr items \<Rightarrow>
               (let h1 = hist @ [Call (ListConfigMap namespace (label_selector kind name)) None]
                in if int (length items) \<le> MAX_BACKUPS_TO_RETAIN env then (Inr (), h1)
                   else
                     case cms_to_delete (MAX_BACKUPS_TO_RETAIN env) items of
                       Inl e \<Rightarrow> (Inl e, h1)
                     | Inr cms \<Rightarrow> delete_cms env h1 namespace cms))"

definition backup_cm_name :: "kind \<Rightarrow> string \<Rightarrow> datetime \<Rightarrow> string" where
  "backup_cm_name kind name now =
     CONFIGMAP_PREFIX @ ''-'' @ lower_kind (kind_str kind) @ ''-'' @ name @ ''-'' @ strftime_backup now"

definition backup_key_name :: "kind \<Rightarrow> string \<Rightarrow> string" where
  "backup_key_name kind name = lower_kind (kind_str kind) @ ''-'' @ name"

definition backup_body :: "string \<Rightarrow> kind \<Rightarrow> string \<Rightarrow> json \<Rightarrow> datetime \<Rightarrow> configmap" where
  "backup_body namespace kind name state now =
     \<lparr>cm_name = backup_cm_name kind name now,
      cm_namespace = namespace,
      cm_labels = [(OPERATOR_LABEL, OPERATOR_VALUE), (''resource-kind'', kind_str kind),
                   (''resource-name'', name)],
      cm_creation_timestamp = None,
      cm_data = Some [(backup_key_name kind name, json_dumps state)]\<rparr>"

definition backup_state ::
    "env \<Rightarrow> event list \<Rightarrow> string \<Rightarrow> kind \<Rightarrow> string \<Rightarrow> json \<Rightarrow> (exn + unit) \<times> event list" where
  "backup_state env hist namespace kind name state =
     (let body = backup_body namespace kind name state (utc_now env hist);
          r = create_namespaced_config_map env hist namespace body;
          h1 = hist @ [Call (CreateConfigMap namespace body) r]
      in case r of
           None \<Rightarrow>
             (case prune_old_backups env (h1 @ [Log INFO ''State saved in ConfigMap'']) namespace kind name of
                (Inl (ApiException status), h2) \<Rightarrow>
                  (Inr (), h2 @ [Log ERROR ''Failed to create backup ConfigMap''])
              | res \<Rightarrow> res)
         | Some (ApiException status) \<Rightarrow>
             (Inr (), h1 @ [Log ERROR ''Failed to create backup ConfigMap''])
         | Some e \<Rightarrow> (Inl e, h1))"

text \<open>
  \<open>find_latest_backup_state\<close> returns the decoded state or \<open>None\<close> (\<open>JNull\<close>).
\<close>

definition find_latest_backup_state ::
    "env \<Rightarrow> event list \<Rightarrow> string \<Rightarrow> kind \<Rightarrow> string \<Rightarrow> (exn + json) \<times> event list" where
  "find_latest_backup_state env hist namespace kind name =
     (let r = list_namespaced_config_map env hist namespace (label_selector kind name)
      in case r of
           Inl e \<Rightarrow>
             (let h1 = hist @ [Call (ListConfigMap namespace (label_selector kind name)) (Some e)]
              in case e of
                   ApiException status \<Rightarrow> (Inr JNull, h1 @ [Log ERROR ''Could not find backup ConfigMaps''])
                 | JSONDecodeError \<Rightarrow> (Inr JNull, h1 @ [Log ERROR ''Failed to parse backup state JSON''])
                 | _ \<Rightarrow> (Inl e, h1))
         | Inr items \<Rightarrow>
             (let h1 = hist @ [Call (ListConfigMap namespace (label_selector kind name)) None]
              in if items = [] then (Inr JNull, h1 @ [Log INFO ''No backup ConfigMaps found''])
                 else
                   case sorted_by_creation_reverse items of
                     Inl e \<Rightarrow> (Inl e, h1)
                   | Inr [] \<Rightarrow> (Inl IndexError, h1)
                   | Inr (latest_cm # _) \<Rightarrow>
                       (let state_json =
                              (case cm_data latest_cm of
                                 None \<Rightarrow> None
                               | Some d \<Rightarrow> map_of d (backup_key_name kind name))
                        in case state_json of
                             None \<Rightarrow>
                               (Inr JNull, h1 @ [Log WARNING ''Backup ConfigMap has no data for key''])
                           | Some txt \<Rightarrow>
                               if nonempty_text txt then
                                 (case json_loads txt of
                                    Inr state \<Rightarrow>
                                      (Inr state, h1 @ [Log INFO ''Found latest backup state''])
                                  | Inl e \<Rightarrow>
                                      (Inr JNull,
                                       h1 @ [Log INFO ''Found latest backup state'',
                                             Log ERROR ''Failed to parse backup state JSON'']))
                               else
                                 (Inr JNull, h1 @ [Log WARNING ''Backup ConfigMap has no data for key'']))))"

section \<open>State getters\<close>

text \<open>
  Each getter returns the state dictionary, or \<open>None\<close> when the read raises an
  \<open>ApiException\<close>. In \<open>x or d\<close> Python takes \<open>d\<close> whenever \<open>x\<close> is falsy.
\<close>

definition replicas_or_1 :: "int option \<Rightarrow> int" where
  "replicas_or_1 replicas = (case replicas of None \<Rightarrow> 1 | Some n \<Rightarrow> if n = 0 then 1 else n)"

definition suspend_or_False :: "bool option \<Rightarrow> bool" where
  "suspend_or_False suspend = (case suspend of None \<Rightarrow> False | Some b \<Rightarrow> if b then b else False)"

definition get_deployment_state ::
    "env \<Rightarrow> event list \<Rightarrow> string \<Rightarrow> string \<Rightarrow> (exn + json) \<times> event list" where
  "get_deployment_state env hist namespace name =
     (case read_namespaced_deployment env hist name namespace of
        Inr replicas \<Rightarrow>
          (Inr (JDict [(''replicas'', JInt (replicas_or_1 replicas))]),
           hist @ [Call (ReadDeployment name namespace) None])
      | Inl (ApiException status) \<Rightarrow>
          (Inr JNull, hist @ [Call (ReadDeployment name namespace) (Some (ApiException status))])
      | Inl e \<Rightarrow> (Inl e, hist @ [Call (ReadDeployment name namespace) (Some e)]))"

definition get_statefulset_state ::
    "env \<Rightarrow> event list \<Rightarrow> string \<Rightarrow> string \<Rightarrow> (exn + json) \<times> event list" where
  "get_statefulset_state env hist namespace name =
     (case read_namespaced_stateful_set env hist name namespace of
        Inr replicas \<Rightarrow>
          (Inr (JDict [(''replicas'', JInt (replicas_or_1 replicas))]),
           hist @ [Call (ReadStatefulSet name namespace) None])
      | Inl (ApiException status) \<Rightarrow>
          (Inr JNull, hist @ [Call (ReadStatefulSet name namespace) (Some (ApiException status))])
      | Inl e \<Rightarrow> (Inl e, hist @ [Call (ReadStatefulSet name namespace) (Some e)]))"

definition get_hpa_state ::
    "env \<Rightarrow> event list \<Rightarrow> string \<Rightarrow> string \<Rightarrow> (exn + json) \<times> event list" where
  "get_hpa_state env hist namespace name =
     (case read_namespaced_horizontal_pod_autoscaler env hist name namespace of
        Inr spec \<Rightarrow>
          (Inr (JDict [(''spec'', spec)]), hist @ [Call (ReadHPA name namespace) None])
      | Inl (ApiException status) \<Rightarrow>
          (Inr JNull, hist @ [Call (ReadHPA name namespace) (Some (ApiException status))])
      | Inl e \<Rightarrow> (Inl e, hist @ [Call (ReadHPA name namespace) (Some e)]))"

definition get_cronjob_state ::
    "env \<Rightarrow> event list \<Rightarrow> string \<Rightarrow> string \<Rightarrow> (exn + json) \<times> event list" where
  "get_cronjob_state env hist namespace name =
     (case read_namespaced_cron_job env hist name namespace of
        Inr suspend \<Rightarrow>
          (Inr (JDict [(''suspend'', JBool (suspend_or_False suspend))]),
           hist @ [Call (ReadCronJob name namespace) None])
      | Inl (ApiException status) \<Rightarrow>
          (Inr JNull, hist @ [Call (ReadCronJob name namespace) (Some (ApiException status))])
      | Inl e \<Rightarrow> (Inl e, hist @ [Call (ReadCronJob name namespace) (Some e)]))"

section \<open>Scalers\<close>

text \<open>
  \<open>direction\<close> is the string \<open>'down'\<close> or \<open>'up'\<close>; \<open>state\<close> is the restored
  state, or \<open>None\<close>.
\<close>

definition scale_deployment ::
    "env \<Rightarrow> event list \<Rightarrow> string \<Rightarrow> string \<Rightarrow> string \<Rightarrow> json \<Rightarrow> (exn + unit) \<times> event list" where
  "scale_deployment env hist namespace name direction state =
     (case (if direction = ''down'' then Inr (JInt 0)
            else if truthy state then py_get state ''replicas'' (JInt 1) else Inr (JInt 1)) of
        Inl e \<Rightarrow> (Inl e, hist)
      | Inr replicas \<Rightarrow>
          (let patch = JDict [(''spec'', JDict [(''replicas'', replicas)])];
               r = patch_namespaced_deployment env hist name namespace patch;
               h1 = hist @ [Call (PatchDeployment name namespace patch) r]
           in case r of
                None \<Rightarrow> (Inr (), h1 @ [Log INFO ''Patched Deployment replicas''])
              | Some (ApiException status) \<Rightarrow>
                  (Inr (),
                   h1 @ [Log ERROR (if status = 403 then ''Permission denied patching Deployment''
                                    else ''Failed to scale Deployment'')])
              | Some e \<Rightarrow> (Inl e, h1)))"

definition scale_statefulset ::
    "env \<Rightarrow> event list \<Rightarrow> string \<Rightarrow> string \<Rightarrow> string \<Rightarrow> json \<Rightarrow> (exn + unit) \<times> event list" where
  "scale_statefulset env hist namespace name direction state =
     (case (if direction = ''down'' then Inr (JInt 0)
            else if truthy state then py_get state ''replicas'' (JInt 1) else Inr (JInt 1)) of
        Inl e \<Rightarrow> (Inl e, hist)
      | Inr replicas \<Rightarrow>
          (let patch = JDict [(''spec'', JDict [(''replicas'', replicas)])];
               r = patch_namespaced_stateful_set env hist name namespace patch;
               h1 = hist @ [Call (PatchStatefulSet name namespace patch) r]
           in case r of
                None \<Rightarrow> (Inr (), h1 @ [Log INFO ''Patched StatefulSet replicas''])
              | Some (ApiException status) \<Rightarrow> (Inr (), h1 @ [Log ERROR ''Failed to scale StatefulSet''])
              | Some e \<Rightarrow> (Inl e, h1)))"

definition hpa_body :: "string \<Rightarrow> string \<Rightarrow> json \<Rightarrow> json" where
  "hpa_body namespace name spec =
     JDict [(''apiVersion'', JStr ''autoscaling/v2''),
            (''kind'', JStr ''HorizontalPodAutoscaler''),
            (''metadata'', JDict [(''name'', JStr name), (''namespace'', JStr namespace)]),
            (''spec'', spec)]"

definition scale_hpa ::
    "env \<Rightarrow> event list \<Rightarrow> string \<Rightarrow> string \<Rightarrow> string \<Rightarrow> json \<Rightarrow> (exn + unit) \<times> event list" where
  "scale_hpa env hist namespace name direction state =
     (if direction = ''down'' then
        (let h1 = hist @ [Log INFO ''Deleting HPA''];
             r = delete_namespaced_horizontal_pod_autoscaler env h1 name namespace;
             h2 = h1 @ [Call (DeleteHPA name namespace) r]
         in case r of
              None \<Rightarrow> (Inr (), h2)
            | Some (ApiException status) \<Rightarrow>
                (Inr (),
                 h2 @ [if status = 404 then Log WARNING ''HPA not found for deletion, already gone''
                       else Log ERROR ''Failed to delete HPA''])
            | Some e \<Rightarrow> (Inl e, h2))
      else
        (case (if \<not> truthy state then Inr False else py_in ''spec'' state) of
           Inl e \<Rightarrow> (Inl e, hist)
         | Inr False \<Rightarrow>
             (Inr (), hist @ [Log ERROR ''Cannot re-create HPA, no valid state was backed up''])
         | Inr True \<Rightarrow>
             (case py_getitem state ''spec'' of
                Inl e \<Rightarrow> (Inl e, hist)
              | Inr spec \<Rightarrow>
                  (let h1 = hist @ [Log INFO ''Re-creating HPA''];
                       r = create_namespaced_horizontal_pod_autoscaler env h1 namespace
                             (hpa_body namespace name spec);
                       h2 = h1 @ [Call (CreateHPA namespace (hpa_body namespace name spec)) r]
                   in case r of
                        None \<Rightarrow> (Inr (), h2)
                      | Some (ApiException status) \<Rightarrow>
                          (Inr (),
                           h2 @ [if status = 409 then Log WARNING ''HPA already exists. Skipping re-creation''
                                 else Log ERROR ''Failed to re-create HPA''])
                      | Some e \<Rightarrow> (Inl e, h2)))))"

definition scale_cronjob ::
    "env \<Rightarrow> event list \<Rightarrow> string \<Rightarrow> string \<Rightarrow> string \<Rightarrow> json \<Rightarrow> (exn + unit) \<times> event list" where
  "scale_cronjob env hist namespace name direction state =
     (case (if direction = ''down'' then Inr (JBool True)
            else if truthy state then py_get state ''suspend'' (JBool False) else Inr (JBool False)) of
        Inl e \<Rightarrow> (Inl e, hist)
      | Inr suspend \<Rightarrow>
          (let patch = JDict [(''spec'', JDict [(''suspend'', suspend)])];
               r = patch_namespaced_cron_job env hist name namespace patch;
               h1 = hist @ [Call (PatchCronJob name namespace patch) r]
           in case r of
                None \<Rightarrow> (Inr (), h1 @ [Log INFO ''Patched CronJob suspend''])
              | Some (ApiException status) \<Rightarrow> (Inr (), h1 @ [Log ERROR ''Failed to scale CronJob''])
              | Some e \<Rightarrow> (Inl e, h1)))"

section \<open>Resource processing\<close>

text \<open>
  A listed resource: its name and its annotations (\<open>None\<close> when it has none); the
  value of an annotation is any text. The dispatch table of \<open>process_resources\<close>
  gives the scaler and the state getter of each kind.
\<close>

record resource =
  res_name :: string
  res_annotations :: "(string \<rightharpoonup> ustr) option"

type_synonym scaler =
  "env \<Rightarrow> event list \<Rightarrow> string \<Rightarrow> string \<Rightarrow> string \<Rightarrow> json \<Rightarrow> (exn + unit) \<times> event list"

type_synonym state_getter =
  "env \<Rightarrow> event list \<Rightarrow> string \<Rightarrow> string \<Rightarrow> (exn + json) \<times> event list"

fun scaler_of :: "kind \<Rightarrow> scaler" where
  "scaler_of Deployment = scale_deployment"
| "scaler_of StatefulSet = scale_statefulset"
| "scaler_of HorizontalPodAutoscaler = scale_hpa"
| "scaler_of CronJob = scale_cronjob"

fun state_getter_of :: "kind \<Rightarrow> state_getter" where
  "state_getter_of Deployment = get_deployment_state"
| "state_getter_of StatefulSet = get_statefulset_state"
| "state_getter_of HorizontalPodAutoscaler = get_hpa_state"
| "state_getter_of CronJob = get_cronjob_state"

definition annotations_of :: "resource \<Rightarrow> string \<rightharpoonup> ustr" where
  "annotations_of resource = (case res_annotations resource of None \<Rightarrow> Map.empty | Some a \<Rightarrow> a)"

text \<open>The scale-down branch and the scale-up branch of \<open>process_single_resource\<close>.\<close>

definition scale_down_branch ::
    "env \<Rightarrow> event list \<Rightarrow> string \<Rightarrow> string \<Rightarrow> kind \<Rightarrow> scaler \<Rightarrow> state_getter \<Rightarrow> event list" where
  "scale_down_branch env hist namespace name kind scaler_func state_getter_func =
     (let h1 = hist @ [Log INFO ''SCALING DOWN'']
      in case state_getter_func env h1 namespace name of
           (Inl e, h2) \<Rightarrow> h2 @ [Log ERROR ''Failed to scale down'']
         | (Inr current_state, h2) \<Rightarrow>
             if truthy current_state then
               (case backup_state env h2 namespace kind name current_state of
                  (Inl e, h3) \<Rightarrow> h3 @ [Log ERROR ''Failed to scale down'']
                | (Inr u, h3) \<Rightarrow>
                    (case scaler_func env h3 namespace name ''down'' JNull of
                       (Inl e, h4) \<Rightarrow> h4 @ [Log ERROR ''Failed to scale down'']
                     | (Inr u, h4) \<Rightarrow> h4))
             else h2)"

definition scale_up_branch ::
    "env \<Rightarrow> event list \<Rightarrow> string \<Rightarrow> string \<Rightarrow> kind \<Rightarrow> scaler \<Rightarrow> event list" where
  "scale_up_branch env hist namespace name kind scaler_func =
     (let h1 = hist @ [Log INFO ''SCALING UP'']
      in case find_latest_backup_state env h1 namespace kind name of
           (Inl e, h2) \<Rightarrow> h2 @ [Log ERROR ''Failed to scale up'']
         | (Inr restored_state, h2) \<Rightarrow>
             if \<not> truthy restored_state then
               h2 @ [Log WARNING ''No backup state found. Cannot scale up'']
             else
               (case scaler_func env h2 namespace name ''up'' restored_state of
                  (Inl e, h3) \<Rightarrow> h3 @ [Log ERROR ''Failed to scale up'']
                | (Inr u, h3) \<Rightarrow> h3))"

definition process_single_resource ::
    "env \<Rightarrow> event list \<Rightarrow> string \<Rightarrow> resource \<Rightarrow> kind \<Rightarrow> datetime \<Rightarrow> scaler \<Rightarrow> state_getter
      \<Rightarrow> event list" where
  "process_single_resource env hist namespace resource kind now_utc scaler_func state_getter_func =
     (let name = res_name resource;
          annotations = annotations_of resource
      in if annotations ANNOTATION_NS_CONTROL = Some (uni ''Disable'') then hist
         else if is_schedule_active (unicode env) (annotations ANNOTATION_SCALE_DOWN) now_utc then
           scale_down_branch env hist namespace name kind scaler_func state_getter_func
         else if is_schedule_active (unicode env) (annotations ANNOTATION_SCALE_UP) now_utc then
           scale_up_branch env hist namespace name kind scaler_func
         else hist)"

section \<open>Reading a history\<close>

text \<open>
  The events a run added to the history it started from, the API calls among them, and
  the calls that change a workload: the patches of the three patched kinds and the
  deletion and creation of an autoscaler.
\<close>

definition new_events :: "event list \<Rightarrow> event list \<Rightarrow> event list" where
  "new_events hist hist' = drop (length hist) hist'"

fun calls :: "event list \<Rightarrow> api_call list" where
  "calls [] = []"
| "calls (Call c r # es) = c # calls es"
| "calls (Log l m # es) = calls es"

fun is_scaling_call :: "api_call \<Rightarrow> bool" where
  "is_scaling_call (PatchDeployment name namespace body) = True"
| "is_scaling_call (PatchStatefulSet name namespace body) = True"
| "is_scaling_call (PatchCronJob name namespace body) = True"
| "is_scaling_call (DeleteHPA name namespace) = True"
| "is_scaling_call (CreateHPA namespace body) = True"
| "is_scaling_call c = False"

definition scaling_calls :: "event list \<Rightarrow> api_call list" where
  "scaling_calls es = filter is_scaling_call (calls es)"

fun logs :: "level \<Rightarrow> event list \<Rightarrow> string list" where
  "logs lvl [] = []"
| "logs lvl (Call c r # es) = logs lvl es"
| "logs lvl (Log l m # es) = (if l = lvl then m # logs lvl es else logs lvl es)"


text \<open>The call by which the scaler of a kind takes a resource down.\<close>

fun down_call :: "kind \<Rightarrow> string \<Rightarrow> string \<Rightarrow> api_call" where
  "down_call Deployment namespace name =
     PatchDeployment name namespace (JDict [(''spec'', JDict [(''replicas'', JInt 0)])])"
| "down_call StatefulSet namespace name =
     PatchStatefulSet name namespace (JDict [(''spec'', JDict [(''replicas'', JInt 0)])])"
| "down_call HorizontalPodAutoscaler namespace name = DeleteHPA name namespace"
| "down_call CronJob namespace name =
     PatchCronJob name namespace (JDict [(''spec'', JDict [(''suspend'', JBool True)])])"

section \<open>Example inputs\<close>

text \<open>
  A character database that knows the first 256 code points (its whitespace, digits,
  letters and capitals beyond ASCII are those of Latin-1) and nothing beyond them;
  Friday 2026-12-11, 09:00:00 UTC; a cluster in which every call succeeds, every
  Deployment and StatefulSet has four replicas and no backup exists; and a Deployment
  \<open>web\<close> with a scale-down or a scale-up schedule at 09:00.
\<close>

definition latin1 :: unicode_db where
  "latin1 =
     \<lparr>db_isspace = (\<lambda>c. c \<in> set [133, 160]),
      db_isdigit = (\<lambda>c. c \<in> set [178, 179, 185]),
      db_isalpha = (\<lambda>c. c \<in> set [170, 181, 186] \<or> (192 \<le> c \<and> c \<le> 255 \<and> c \<noteq> 215 \<and> c \<noteq> 247)),
      db_lower =
        map (\<lambda>c. if (65 \<le> c \<and> c \<le> 90) \<or> (192 \<le> c \<and> c \<le> 222 \<and> c \<noteq> 215) then c + 32 else c)\<rparr>"

definition friday_0900 :: datetime where
  "friday_0900 =
     \<lparr>year = 2026, month = 12, day = 11, hour = 9, minute = 0, second = 0, microsecond = 0\<rparr>"

definition calm :: env where
  "calm =
     \<lparr>list_namespaced_config_map = (\<lambda>h namespace selector. Inr []),
      create_namespaced_config_map = (\<lambda>h namespace body. None),
      delete_namespaced_config_map = (\<lambda>h name namespace. None),
      read_namespaced_deployment = (\<lambda>h name namespace. Inr (Some 4)),
      read_namespaced_stateful_set = (\<lambda>h name namespace. Inr (Some 4)),
      read_namespaced_horizontal_pod_autoscaler =
        (\<lambda>h name namespace. Inr (JDict [(''maxReplicas'', JInt 5)])),
      read_namespaced_cron_job = (\<lambda>h name namespace. Inr (Some False)),
      patch_namespaced_deployment = (\<lambda>h name namespace body. None),
      patch_namespaced_stateful_set = (\<lambda>h name namespace body. None),
      patch_namespaced_cron_job = (\<lambda>h name namespace body. None),
      delete_namespaced_horizontal_pod_autoscaler = (\<lambda>h name namespace. None),
      create_namespaced_horizontal_pod_autoscaler = (\<lambda>h namespace body. None),
      utc_now = (\<lambda>h. friday_0900),
      MAX_BACKUPS_TO_RETAIN = 5,
      unicode = latin1\<rparr>"

definition web_down :: resource where
  "web_down = \<lparr>res_name = ''web'', res_annotations = Some [ANNOTATION_SCALE_DOWN \<mapsto> uni ''09:00'']\<rparr>"

definition web_up :: resource where
  "web_up = \<lparr>res_name = ''web'', res_annotations = Some [ANNOTATION_SCALE_UP \<mapsto> uni ''09:00'']\<rparr>"

definition web_both :: resource where
  "web_both =
     \<lparr>res_name = ''web'',
      res_annotations = Some [ANNOTATION_SCALE_DOWN \<mapsto> uni ''09:00'', ANNOTATION_SCALE_UP \<mapsto> uni ''09:00'']\<rparr>"

text \<open>The ConfigMap that \<open>backup_state\<close> creates for \<open>web\<close> with four replicas at that instant.\<close>

definition web_backup :: configmap where
  "web_backup =
     \<lparr>cm_name = ''ks-backup-deployment-web-20261211-090000'',
      cm_namespace = ''default'',
      cm_labels = [(''app.kubernetes.io/managed-by'', ''kubescaler''),
                   (''resource-kind'', ''Deployment''), (''resource-name'', ''web'')],
      cm_creation_timestamp = None,
      cm_data = Some [(''deployment-web'', Encoded (JDict [(''replicas'', JInt 4)]))]\<rparr>"





text \<open>A cluster in which the Deployments and StatefulSets are at zero replicas.\<close>

definition at_zero :: env where
  "at_zero =
     calm\<lparr>read_namespaced_deployment := \<lambda>h name namespace. Inr (Some 0),
          read_namespaced_stateful_set := \<lambda>h name namespace. Inr (Some 0)\<rparr>"




text \<open>A cluster that refuses to create a ConfigMap with a server error.\<close>

definition backup_refused :: env where
  "backup_refused = calm\<lparr>create_namespaced_config_map := \<lambda>h namespace body. Some (ApiException 500)\<rparr>"

section \<open>Properties of the schedule parser and evaluator\<close>

lemmas char_class_defs =
  isdigit_def isdigit_c_def isalpha_c_def isspace_c_def lower_def lower_ascii_c_def strip_def
  uni_def cp_def

lemmas strftime_defs =
  strftime_HM_def strftime_Y_def strftime_b_def strftime_a_def pad2_def pad4_def

text \<open>
  On ASCII text the parser computes the same for every character database.
\<close>

lemma classify_examples:
  "classify db (uni ''2026'') = Some Year"
  "classify db (uni ''2027'') = Some Year"
  "classify db (uni ''dec'') = Some Month"
  "classify db (uni ''dec,'') = Some Month"
  "classify db (uni ''fri'') = Some DayOfWeek"
  "classify db (uni ''fri,'') = Some DayOfWeek"
  "classify db (uni ''a:b'') = Some DayOfWeek"
  "classify db (uni ''11'') = Some DayOfMonth"
  "classify db (uni ''13'') = Some DayOfMonth"
  "classify db (uni ''14'') = Some DayOfMonth"
  by (simp_all add: classify_def char_class_defs month_abbrs_def startswith_def)

lemma parts_examples:
  "schedule_parts db (uni ''2026;Dec;Fri;13;09:00'') =
     [uni ''2026'', uni ''dec'', uni ''fri'', uni ''13'', uni ''09:00'']"
  "schedule_parts db (uni ''2026;Dec;Fri;11;09:00'') =
     [uni ''2026'', uni ''dec'', uni ''fri'', uni ''11'', uni ''09:00'']"
  "schedule_parts db (uni ''2026;Dec;Fri;14;09:00'') =
     [uni ''2026'', uni ''dec'', uni ''fri'', uni ''14'', uni ''09:00'']"
  "schedule_parts db (uni ''dec,;fri,;09:00'') = [uni ''dec,'', uni ''fri,'', uni ''09:00'']"
  "schedule_parts db (uni ''Dec;2026'') = [uni ''dec'', uni ''2026'']"
  "schedule_parts db (uni ''2026;Dec'') = [uni ''2026'', uni ''dec'']"
  "schedule_parts db (uni ''2026;2027'') = [uni ''2026'', uni ''2027'']"
  "schedule_parts db (uni ''2027;2026'') = [uni ''2027'', uni ''2026'']"
  "schedule_parts db (uni ''a:b;2026'') = [uni ''a:b'', uni ''2026'']"
  "schedule_parts db (uni ''2026;a:b'') = [uni ''2026'', uni ''a:b'']"
  by (simp_all add: schedule_parts_def char_class_defs)

lemmas schedule_numeric =
  classify_examples [unfolded uni_def, simplified] parts_examples [unfolded uni_def, simplified]

lemma parse_examples:
  "parse_schedule db (uni ''2026;Dec;Fri;13;09:00'') =
     \<lparr>year_spec = uni ''2026'', month_spec = uni ''dec'', day_spec = uni ''fri'',
      date_spec = uni ''13'', time_spec = Some (uni ''09:00'')\<rparr>"
  "parse_schedule db (uni ''2026;Dec;Fri;11;09:00'') =
     \<lparr>year_spec = uni ''2026'', month_spec = uni ''dec'', day_spec = uni ''fri'',
      date_spec = uni ''11'', time_spec = Some (uni ''09:00'')\<rparr>"
  "parse_schedule db (uni ''2026;Dec;Fri;14;09:00'') =
     \<lparr>year_spec = uni ''2026'', month_spec = uni ''dec'', day_spec = uni ''fri'',
      date_spec = uni ''14'', time_spec = Some (uni ''09:00'')\<rparr>"
  "parse_schedule db (uni ''dec,;fri,;09:00'') =
     \<lparr>year_spec = uni ''*'', month_spec = uni ''dec,'', day_spec = uni ''fri,'',
      date_spec = uni ''*'', time_spec = Some (uni ''09:00'')\<rparr>"
  "parse_schedule db (uni ''2026;2027'') =
     \<lparr>year_spec = uni ''2027'', month_spec = uni ''*'', day_spec = uni ''*'',
      date_spec = uni ''*'', time_spec = None\<rparr>"
  "parse_schedule db (uni ''2027;2026'') =
     \<lparr>year_spec = uni ''2026'', month_spec = uni ''*'', day_spec = uni ''*'',
      date_spec = uni ''*'', time_spec = None\<rparr>"
  "parse_schedule db (uni ''a:b;2026'') =
     \<lparr>year_spec = uni ''2026'', month_spec = uni ''*'', day_spec = uni ''a:b'',
      date_spec = uni ''*'', time_spec = None\<rparr>"
  "parse_schedule db (uni ''2026;a:b'') =
     \<lparr>year_spec = uni ''2026'', month_spec = uni ''*'', day_spec = uni ''*'',
      date_spec = uni ''*'', time_spec = Some (uni ''a:b'')\<rparr>"
  by (simp_all add: parse_schedule_def schedule_numeric other_parts_def time_part_def assign_def
        wildcards_def uni_def cp_def)

lemmas parse_numeric = parse_examples [unfolded uni_def, simplified]

lemma str_nat_examples:
  "str_nat 0 = ''0''" "str_nat (Suc 0) = ''1''" "str_nat 9 = ''9''" "str_nat 11 = ''11''"
  "str_nat 2026 = ''2026''"
  by (simp_all add: str_nat.simps digit_c_def)

lemma friday:
  "weekday \<lparr>year = 2026, month = 12, day = 11, hour = h, minute = m, second = s, microsecond = us\<rparr> = 4"
  by (simp add: weekday_def toordinal_def days_before_year_def days_before_month_def is_leap_def)

text \<open>
  C4, as the code has it. 2026-12-11 is a Friday (weekday 4, Monday being 0). At
  2026-12-11T09:00Z the schedule \<open>2026;Dec;Fri;13;09:00\<close> is not active, because the
  day of the month is 11 and not 13; with the day-of-month token 11 the schedule is
  active at 09:00 and not active at 09:01; with the token 14 it is not active at 09:00.
\<close>

theorem evaluator_example:
  "weekday \<lparr>year = 2026, month = 12, day = 11, hour = 9, minute = 0, second = 0, microsecond = 0\<rparr> = 4 \<and>
   \<not> is_schedule_active db (Some (uni ''2026;Dec;Fri;13;09:00''))
       \<lparr>year = 2026, month = 12, day = 11, hour = 9, minute = 0, second = 0, microsecond = 0\<rparr> \<and>
   is_schedule_active db (Some (uni ''2026;Dec;Fri;11;09:00''))
       \<lparr>year = 2026, month = 12, day = 11, hour = 9, minute = 0, second = 0, microsecond = 0\<rparr> \<and>
   \<not> is_schedule_active db (Some (uni ''2026;Dec;Fri;11;09:00''))
       \<lparr>year = 2026, month = 12, day = 11, hour = 9, minute = 1, second = 0, microsecond = 0\<rparr> \<and>
   \<not> is_schedule_active db (Some (uni ''2026;Dec;Fri;13;09:00''))
       \<lparr>year = 2026, month = 12, day = 11, hour = 9, minute = 1, second = 0, microsecond = 0\<rparr> \<and>
   \<not> is_schedule_active db (Some (uni ''2026;Dec;Fri;14;09:00''))
       \<lparr>year = 2026, month = 12, day = 11, hour = 9, minute = 0, second = 0, microsecond = 0\<rparr>"
  by (simp add: friday is_schedule_active_def parse_numeric schedule_matches_def strftime_defs
        str_nat_examples startswith_def char_class_defs)

text \<open>
  C4 as the specification states it fails: at 2026-12-11T09:00Z the schedule
  \<open>2026;Dec;Fri;13;09:00\<close> is not active.
\<close>

theorem evaluator_example_counterexample:
  "\<not> is_schedule_active latin1 (Some (uni ''2026;Dec;Fri;13;09:00''))
       \<lparr>year = 2026, month = 12, day = 11, hour = 9, minute = 0, second = 0, microsecond = 0\<rparr>"
  by (simp add: friday is_schedule_active_def parse_numeric schedule_matches_def strftime_defs
        str_nat_examples startswith_def char_class_defs)

lemma assign_commute:
  "classify db p = None \<or> classify db q = None \<or> classify db p \<noteq> classify db q \<or> p = q \<Longrightarrow>
   assign db p (assign db q sp) = assign db q (assign db p sp)"
  by (cases "classify db p"; cases "classify db q";
      cases "the (classify db p)"; cases "the (classify db q)")
     (auto simp: assign_def)

lemma parse_schedule_parts:
  "parse_schedule db a =
     (fold (assign db) (other_parts (schedule_parts db a)) wildcards)
       \<lparr>time_spec := time_part (schedule_parts db a)\<rparr>"
proof (cases "a = []")
  case True
  then show ?thesis
    by (simp add: parse_schedule_def schedule_parts_def other_parts_def time_part_def assign_def
          classify_def wildcards_def strip_def lower_def)
next
  case False
  then show ?thesis
    by (simp add: parse_schedule_def Let_def)
qed

lemma fold_assign_permuted:
  assumes "mset ps = mset qs"
      and "\<forall>p \<in> set ps. \<forall>q \<in> set ps.
             classify db p \<noteq> None \<and> classify db p = classify db q \<longrightarrow> p = q"
  shows "fold (assign db) ps = fold (assign db) qs"
proof (rule fold_multiset_equiv)
  show "mset ps = mset qs" by (rule assms(1))
next
  fix p q
  assume "p \<in> set ps" "q \<in> set ps"
  with assms(2)
  have "classify db p = None \<or> classify db q = None \<or> classify db p \<noteq> classify db q \<or> p = q"
    by blast
  then show "assign db p \<circ> assign db q = assign db q \<circ> assign db p"
    by (auto simp: fun_eq_iff assign_commute)
qed

text \<open>
  C5, as the code has it, for every text and every character database. The time part of
  an annotation is its last part when that part contains a colon, and no part otherwise.
  Two annotations with the same time part, whose other parts (stripped and lowercased)
  are a permutation of each other, parse to the same tuple, provided that no two
  different ones of these parts are assigned to the same variable (year, month, day of
  week, day of month). Parts that match no rule are free to move.
\<close>

theorem parse_schedule_order_independent:
  assumes "time_part (schedule_parts db a) = time_part (schedule_parts db b)"
      and "mset (other_parts (schedule_parts db a)) = mset (other_parts (schedule_parts db b))"
      and "\<forall>p \<in> set (other_parts (schedule_parts db a)).
             \<forall>q \<in> set (other_parts (schedule_parts db a)).
               classify db p \<noteq> None \<and> classify db p = classify db q \<longrightarrow> p = q"
  shows "parse_schedule db a = parse_schedule db b"
proof -
  from assms(2,3)
  have "fold (assign db) (other_parts (schedule_parts db a)) =
        fold (assign db) (other_parts (schedule_parts db b))"
    by (rule fold_assign_permuted)
  then show ?thesis
    by (simp add: parse_schedule_parts assms(1))
qed

text \<open>The instance of the specification: \<open>Dec;2026\<close> and \<open>2026;Dec\<close> parse alike.\<close>

theorem parse_schedule_order_independent_witness:
  "time_part (schedule_parts latin1 (uni ''Dec;2026'')) =
     time_part (schedule_parts latin1 (uni ''2026;Dec'')) \<and>
   mset (other_parts (schedule_parts latin1 (uni ''Dec;2026''))) =
     mset (other_parts (schedule_parts latin1 (uni ''2026;Dec''))) \<and>
   map (classify latin1) (other_parts (schedule_parts latin1 (uni ''Dec;2026''))) =
     [Some Month, Some Year] \<and>
   parse_schedule latin1 (uni ''Dec;2026'') = parse_schedule latin1 (uni ''2026;Dec'')"
proof -
  have t: "time_part (schedule_parts latin1 (uni ''Dec;2026'')) =
           time_part (schedule_parts latin1 (uni ''2026;Dec''))"
    by (simp add: schedule_numeric time_part_def uni_def cp_def)
  have m: "mset (other_parts (schedule_parts latin1 (uni ''Dec;2026''))) =
           mset (other_parts (schedule_parts latin1 (uni ''2026;Dec'')))"
    by (simp add: schedule_numeric other_parts_def uni_def cp_def)
  have d: "\<forall>p \<in> set (other_parts (schedule_parts latin1 (uni ''Dec;2026''))).
             \<forall>q \<in> set (other_parts (schedule_parts latin1 (uni ''Dec;2026''))).
               classify latin1 p \<noteq> None \<and> classify latin1 p = classify latin1 q \<longrightarrow> p = q"
    by (simp add: schedule_numeric other_parts_def uni_def cp_def)
  have c: "map (classify latin1) (other_parts (schedule_parts latin1 (uni ''Dec;2026''))) =
           [Some Month, Some Year]"
    by (simp add: schedule_numeric other_parts_def uni_def cp_def)
  from t m c parse_schedule_order_independent [OF t m d] show ?thesis by blast
qed

text \<open>
  C5 as the specification states it fails: \<open>2026;2027\<close> and \<open>2027;2026\<close> have no
  time part and the same parts in another order, and they parse to different years (the
  last year wins).
\<close>

theorem parse_schedule_order_counterexample:
  "time_part (schedule_parts latin1 (uni ''2026;2027'')) =
     time_part (schedule_parts latin1 (uni ''2027;2026'')) \<and>
   mset (other_parts (schedule_parts latin1 (uni ''2026;2027''))) =
     mset (other_parts (schedule_parts latin1 (uni ''2027;2026''))) \<and>
   parse_schedule latin1 (uni ''2026;2027'') \<noteq> parse_schedule latin1 (uni ''2027;2026'')"
  by (simp add: parse_numeric schedule_numeric other_parts_def time_part_def uni_def cp_def)

text \<open>
  The two conditions of C5 are needed. Without a time part, a part that contains a colon
  becomes the time part when it is moved to the end: \<open>a:b;2026\<close> has the day of week
  \<open>a:b\<close> and no time, \<open>2026;a:b\<close> has the time \<open>a:b\<close> and no day of week. And two
  different parts of one category are not free to move, also beyond ASCII: with a
  character database that knows the letters of Latin-1, the annotations made of the
  two letters U+00E9 and U+00E8 in either order keep the last one as the day of week.
\<close>

lemma time_part_moves_example:
  "time_part (schedule_parts db (uni ''a:b;2026'')) = None \<and>
   time_part (schedule_parts db (uni ''2026;a:b'')) = Some (uni ''a:b'') \<and>
   parse_schedule db (uni ''a:b;2026'') \<noteq> parse_schedule db (uni ''2026;a:b'')"
  by (simp add: parse_numeric schedule_numeric time_part_def uni_def cp_def)

lemma accented_parts_example:
  "classify latin1 [233] = Some DayOfWeek \<and>
   classify latin1 [232] = Some DayOfWeek \<and>
   day_spec (parse_schedule latin1 [233, 59, 232]) = [232] \<and>
   day_spec (parse_schedule latin1 [232, 59, 233]) = [233]"
proof -
  have c: "classify latin1 [233] = Some DayOfWeek" "classify latin1 [232] = Some DayOfWeek"
    by (simp_all add: classify_def char_class_defs month_abbrs_def startswith_def latin1_def)
  have p: "schedule_parts latin1 [233, 59, 232] = [[233], [232]]"
    "schedule_parts latin1 [232, 59, 233] = [[232], [233]]"
    by (simp_all add: schedule_parts_def char_class_defs latin1_def)
  from c show ?thesis
    by (simp add: parse_schedule_def p other_parts_def time_part_def assign_def cp_def)
qed

lemma empty_token_matches:
  "[] \<in> set (split (cp CHR '','') m) \<Longrightarrow>
   list_ex (\<lambda>x. startswith s (take 3 x)) (map (strip db) (split (cp CHR '','') m))"
  by (auto simp: list_ex_iff strip_def startswith_def intro!: bexI[of _ "[]"])

text \<open>
  C10. When the month field of a parsed schedule has an empty token between its commas,
  the schedule matches an instant exactly when the same schedule with the month wildcard
  matches it; and the same holds for the day-of-week field.
\<close>

theorem empty_token_is_wildcard:
  "([] \<in> set (split (cp CHR '','') (month_spec sp)) \<longrightarrow>
      schedule_matches db sp now_utc = schedule_matches db (sp\<lparr>month_spec := uni ''*''\<rparr>) now_utc) \<and>
   ([] \<in> set (split (cp CHR '','') (day_spec sp)) \<longrightarrow>
      schedule_matches db sp now_utc = schedule_matches db (sp\<lparr>day_spec := uni ''*''\<rparr>) now_utc)"
  by (simp add: schedule_matches_def empty_token_matches)

text \<open>
  The annotation \<open>dec,;fri,;09:00\<close> has a trailing comma in both fields; on Wednesday
  2026-07-01 at 09:00 it is active, and it matches as its wildcard versions do.
\<close>

theorem empty_token_is_wildcard_witness:
  "is_schedule_active latin1 (Some (uni ''dec,;fri,;09:00''))
     \<lparr>year = 2026, month = 7, day = 1, hour = 9, minute = 0, second = 0, microsecond = 0\<rparr> \<and>
   [] \<in> set (split (cp CHR '','') (month_spec (parse_schedule latin1 (uni ''dec,;fri,;09:00'')))) \<and>
   [] \<in> set (split (cp CHR '','') (day_spec (parse_schedule latin1 (uni ''dec,;fri,;09:00'')))) \<and>
   schedule_matches latin1 (parse_schedule latin1 (uni ''dec,;fri,;09:00''))
     \<lparr>year = 2026, month = 7, day = 1, hour = 9, minute = 0, second = 0, microsecond = 0\<rparr> =
   schedule_matches latin1 ((parse_schedule latin1 (uni ''dec,;fri,;09:00''))\<lparr>month_spec := uni ''*''\<rparr>)
     \<lparr>year = 2026, month = 7, day = 1, hour = 9, minute = 0, second = 0, microsecond = 0\<rparr> \<and>
   schedule_matches latin1 (parse_schedule latin1 (uni ''dec,;fri,;09:00''))
     \<lparr>year = 2026, month = 7, day = 1, hour = 9, minute = 0, second = 0, microsecond = 0\<rparr> =
   schedule_matches latin1 ((parse_schedule latin1 (uni ''dec,;fri,;09:00''))\<lparr>day_spec := uni ''*''\<rparr>)
     \<lparr>year = 2026, month = 7, day = 1, hour = 9, minute = 0, second = 0, microsecond = 0\<rparr>"
proof -
  let ?sp = "parse_schedule latin1 (uni ''dec,;fri,;09:00'')"
  let ?t = "\<lparr>year = 2026, month = 7, day = 1, hour = 9, minute = 0, second = 0, microsecond = 0\<rparr>"
  have m: "[] \<in> set (split (cp CHR '','') (month_spec ?sp))"
    by (simp add: parse_numeric uni_def cp_def)
  have d: "[] \<in> set (split (cp CHR '','') (day_spec ?sp))"
    by (simp add: parse_numeric uni_def cp_def)
  have a: "is_schedule_active latin1 (Some (uni ''dec,;fri,;09:00'')) ?t"
    by (simp add: is_schedule_active_def parse_numeric schedule_matches_def strftime_defs
          str_nat_examples startswith_def char_class_defs)
  from a m d empty_token_is_wildcard [where sp = ?sp and now_utc = ?t and db = latin1] show ?thesis
    by blast
qed

section \<open>Names of backups\<close>

lemma digit_c_eq_iff: "digit_c a = digit_c b \<longleftrightarrow> a mod 10 = b mod 10"
proof -
  have "distinct ''0123456789''" by simp
  moreover have "a mod 10 < length ''0123456789''" "b mod 10 < length ''0123456789''" by simp_all
  ultimately show ?thesis
    unfolding digit_c_def by (rule nth_eq_iff_index_eq)
qed

lemma str_nat_lt10: "n < 10 \<Longrightarrow> str_nat n = [digit_c n]"
  by (simp add: str_nat.simps[of n])

lemma str_nat_ge10: "10 \<le> n \<Longrightarrow> str_nat n = str_nat (n div 10) @ [digit_c n]"
  by (simp add: str_nat.simps[of n])

lemma digit_c_0: "k = 0 \<Longrightarrow> digit_c k = CHR ''0''"
  by (simp add: digit_c_def)

lemma replicate_small: "replicate 3 x = [x, x, x]" "replicate 2 x = [x, x]"
  by (simp_all add: numeral_3_eq_3 numeral_2_eq_2)

lemma pad2_digits: "n < 100 \<Longrightarrow> pad2 n = [digit_c (n div 10), digit_c n]"
proof (cases "n < 10")
  case True
  then show ?thesis by (simp add: pad2_def str_nat_lt10 digit_c_0)
next
  case False
  assume "n < 100"
  with False have "str_nat n = str_nat (n div 10) @ [digit_c n]" "str_nat (n div 10) = [digit_c (n div 10)]"
    by (simp_all add: str_nat_ge10 str_nat_lt10)
  with False show ?thesis by (simp add: pad2_def)
qed

lemma pad4_digits:
  assumes "n < 10000"
  shows "pad4 n = [digit_c (n div 1000), digit_c (n div 100), digit_c (n div 10), digit_c n]"
proof -
  have d100: "n div 10 div 10 = n div 100" and d1000: "n div 100 div 10 = n div 1000"
    by (simp_all add: div_mult2_eq[symmetric])
  consider "n < 10" | "10 \<le> n" "n < 100" | "100 \<le> n" "n < 1000" | "1000 \<le> n"
    by linarith
  then show ?thesis
  proof cases
    case 1
    then show ?thesis by (simp add: pad4_def str_nat_lt10 digit_c_0 replicate_small)
  next
    case 2
    then have "str_nat n = str_nat (n div 10) @ [digit_c n]" "str_nat (n div 10) = [digit_c (n div 10)]"
      by (simp_all add: str_nat_ge10 str_nat_lt10)
    with 2 show ?thesis by (simp add: pad4_def digit_c_0 replicate_small)
  next
    case 3
    then have "str_nat n = str_nat (n div 10) @ [digit_c n]"
      "str_nat (n div 10) = str_nat (n div 100) @ [digit_c (n div 10)]"
      "str_nat (n div 100) = [digit_c (n div 100)]"
      using str_nat_ge10[of n] str_nat_ge10[of "n div 10"] str_nat_lt10[of "n div 100"]
      by (simp_all add: d100)
    with 3 show ?thesis by (simp add: pad4_def digit_c_0)
  next
    case 4
    with assms have "str_nat n = str_nat (n div 10) @ [digit_c n]"
      "str_nat (n div 10) = str_nat (n div 100) @ [digit_c (n div 10)]"
      "str_nat (n div 100) = str_nat (n div 1000) @ [digit_c (n div 100)]"
      "str_nat (n div 1000) = [digit_c (n div 1000)]"
      using str_nat_ge10[of n] str_nat_ge10[of "n div 10"] str_nat_ge10[of "n div 100"]
        str_nat_lt10[of "n div 1000"]
      by (simp_all add: d100 d1000)
    then show ?thesis by (simp add: pad4_def)
  qed
qed

lemma div_mod_10_eq: "(x::nat) div 10 = y div 10 \<Longrightarrow> x mod 10 = y mod 10 \<Longrightarrow> x = y"
  by (metis div_mult_mod_eq)

lemma pad2_inj: "a < 100 \<Longrightarrow> b < 100 \<Longrightarrow> pad2 a = pad2 b \<longleftrightarrow> a = b"
proof
  assume ab: "a < 100" "b < 100" and "pad2 a = pad2 b"
  then have "(a div 10) mod 10 = (b div 10) mod 10" and m: "a mod 10 = b mod 10"
    by (simp_all add: pad2_digits digit_c_eq_iff)
  moreover from ab have "a div 10 < 10" "b div 10 < 10" by simp_all
  ultimately have "a div 10 = b div 10" by simp
  then show "a = b" using m by (rule div_mod_10_eq)
qed simp

lemma pad4_inj: "a < 10000 \<Longrightarrow> b < 10000 \<Longrightarrow> pad4 a = pad4 b \<longleftrightarrow> a = b"
proof
  assume ab: "a < 10000" "b < 10000" and "pad4 a = pad4 b"
  then have d3: "(a div 1000) mod 10 = (b div 1000) mod 10"
    and d2: "(a div 100) mod 10 = (b div 100) mod 10"
    and d1: "(a div 10) mod 10 = (b div 10) mod 10"
    and d0: "a mod 10 = b mod 10"
    by (simp_all add: pad4_digits digit_c_eq_iff)
  from ab have "a div 1000 < 10" "b div 1000 < 10" by simp_all
  with d3 have "a div 1000 = b div 1000" by simp
  then have "(a div 100) div 10 = (b div 100) div 10" by (simp add: div_mult2_eq[symmetric])
  then have "a div 100 = b div 100" using d2 by (rule div_mod_10_eq)
  then have "(a div 10) div 10 = (b div 10) div 10" by (simp add: div_mult2_eq[symmetric])
  then have "a div 10 = b div 10" using d1 by (rule div_mod_10_eq)
  then show "a = b" using d0 by (rule div_mod_10_eq)
qed simp

lemma length_pad2: "n < 100 \<Longrightarrow> length (pad2 n) = 2"
  by (simp add: pad2_digits)

lemma length_pad4: "n < 10000 \<Longrightarrow> length (pad4 n) = 4"
  by (simp add: pad4_digits)

lemma strftime_backup_eq_iff:
  assumes "valid_datetime t1" "valid_datetime t2"
  shows "strftime_backup t1 = strftime_backup t2 \<longleftrightarrow>
         year t1 = year t2 \<and> month t1 = month t2 \<and> day t1 = day t2 \<and>
         hour t1 = hour t2 \<and> minute t1 = minute t2 \<and> second t1 = second t2"
proof -
  from assms have b: "year t1 < 10000" "year t2 < 10000" "month t1 < 100" "month t2 < 100"
    "day t1 < 100" "day t2 < 100" "hour t1 < 100" "hour t2 < 100" "minute t1 < 100" "minute t2 < 100"
    "second t1 < 100" "second t2 < 100"
    by (simp_all add: valid_datetime_def)
  show ?thesis
    unfolding strftime_backup_def
    by (simp add: append_eq_append_conv length_pad2 length_pad4 pad2_inj pad4_inj b)
qed

lemma length_strftime_backup: "valid_datetime t \<Longrightarrow> length (strftime_backup t) = 15"
  by (simp add: strftime_backup_def valid_datetime_def length_pad2 length_pad4)

lemma lower_kind_str:
  "lower_kind ''Deployment'' = ''deployment''"
  "lower_kind ''StatefulSet'' = ''statefulset''"
  "lower_kind ''HorizontalPodAutoscaler'' = ''horizontalpodautoscaler''"
  "lower_kind ''CronJob'' = ''cronjob''"
  by (simp_all add: lower_kind_def lower_kind_c_def)

lemma kind_prefix_inj:
  "lower_kind (kind_str k1) @ ''-'' @ r1 = lower_kind (kind_str k2) @ ''-'' @ r2 \<Longrightarrow> k1 = k2 \<and> r1 = r2"
  by (cases k1; cases k2) (simp_all add: lower_kind_str)

text \<open>
  C8, as the code has it. The name of a backup is built from the kind, the resource name
  and the clock reading down to the second. Two saves get the same name exactly when
  they are for the same kind and resource name and their clock readings agree from the
  year down to the second; so the names of two saves are distinct unless both are for
  the same resource within the same second.
\<close>

theorem backup_cm_name_eq_iff:
  assumes "valid_datetime t1" and "valid_datetime t2"
  shows "backup_cm_name k1 n1 t1 = backup_cm_name k2 n2 t2 \<longleftrightarrow>
         k1 = k2 \<and> n1 = n2 \<and> year t1 = year t2 \<and> month t1 = month t2 \<and> day t1 = day t2 \<and>
         hour t1 = hour t2 \<and> minute t1 = minute t2 \<and> second t1 = second t2"
proof
  assume eq: "backup_cm_name k1 n1 t1 = backup_cm_name k2 n2 t2"
  then have "lower_kind (kind_str k1) @ ''-'' @ (n1 @ ''-'' @ strftime_backup t1) =
             lower_kind (kind_str k2) @ ''-'' @ (n2 @ ''-'' @ strftime_backup t2)"
    by (simp add: backup_cm_name_def)
  then have k: "k1 = k2" and r: "n1 @ ''-'' @ strftime_backup t1 = n2 @ ''-'' @ strftime_backup t2"
    using kind_prefix_inj by blast+
  from r have "(n1 @ ''-'') @ strftime_backup t1 = (n2 @ ''-'') @ strftime_backup t2"
    by simp
  then have "n1 @ ''-'' = n2 @ ''-''" "strftime_backup t1 = strftime_backup t2"
    using assms by (simp_all add: append_eq_append_conv length_strftime_backup del: append_assoc)
  with k assms show "k1 = k2 \<and> n1 = n2 \<and> year t1 = year t2 \<and> month t1 = month t2 \<and> day t1 = day t2 \<and>
         hour t1 = hour t2 \<and> minute t1 = minute t2 \<and> second t1 = second t2"
    by (simp add: strftime_backup_eq_iff)
next
  assume "k1 = k2 \<and> n1 = n2 \<and> year t1 = year t2 \<and> month t1 = month t2 \<and> day t1 = day t2 \<and>
         hour t1 = hour t2 \<and> minute t1 = minute t2 \<and> second t1 = second t2"
  then show "backup_cm_name k1 n1 t1 = backup_cm_name k2 n2 t2"
    by (simp add: backup_cm_name_def strftime_backup_def)
qed

text \<open>Two saves of the Deployment \<open>web\<close> one second apart get different names.\<close>

theorem backup_cm_name_eq_iff_witness:
  "valid_datetime \<lparr>year = 2026, month = 12, day = 11, hour = 9, minute = 0, second = 0, microsecond = 0\<rparr> \<and>
   valid_datetime \<lparr>year = 2026, month = 12, day = 11, hour = 9, minute = 0, second = 1, microsecond = 0\<rparr> \<and>
   backup_cm_name Deployment ''web''
     \<lparr>year = 2026, month = 12, day = 11, hour = 9, minute = 0, second = 0, microsecond = 0\<rparr> \<noteq>
   backup_cm_name Deployment ''web''
     \<lparr>year = 2026, month = 12, day = 11, hour = 9, minute = 0, second = 1, microsecond = 0\<rparr>"
proof -
  let ?a = "\<lparr>year = 2026, month = 12, day = 11, hour = 9, minute = 0, second = 0, microsecond = 0\<rparr>"
  let ?b = "\<lparr>year = 2026, month = 12, day = 11, hour = 9, minute = 0, second = 1, microsecond = 0\<rparr>"
  have a: "valid_datetime ?a" by (simp add: valid_datetime_def)
  have b: "valid_datetime ?b" by (simp add: valid_datetime_def)
  from a b backup_cm_name_eq_iff [OF a b, of Deployment "''web''" Deployment "''web''"]
  show ?thesis by simp
qed

text \<open>
  C8 as the specification states it fails: two saves of the Deployment \<open>web\<close> half a
  second apart, within the same second, get the same name.
\<close>

theorem backup_cm_name_counterexample:
  "\<lparr>year = 2026, month = 12, day = 11, hour = 9, minute = 0, second = 0, microsecond = 0\<rparr> \<noteq>
   \<lparr>year = 2026, month = 12, day = 11, hour = 9, minute = 0, second = 0, microsecond = 500000\<rparr> \<and>
   backup_cm_name Deployment ''web''
     \<lparr>year = 2026, month = 12, day = 11, hour = 9, minute = 0, second = 0, microsecond = 0\<rparr> =
   backup_cm_name Deployment ''web''
     \<lparr>year = 2026, month = 12, day = 11, hour = 9, minute = 0, second = 0, microsecond = 500000\<rparr>"
  by (simp add: backup_cm_name_def strftime_backup_def)

section \<open>Histories\<close>

lemma new_events_append [simp]: "new_events hist (hist @ es) = es"
  by (simp add: new_events_def)

lemma new_events_self [simp]: "new_events hist hist = []"
  by (simp add: new_events_def)

lemma calls_append [simp]: "calls (xs @ ys) = calls xs @ calls ys"
  by (induction xs rule: calls.induct) simp_all

lemma logs_append [simp]: "logs lvl (xs @ ys) = logs lvl xs @ logs lvl ys"
  by (induction lvl xs rule: logs.induct) simp_all

lemma scaling_calls_simps [simp]:
  "scaling_calls [] = []"
  "scaling_calls (xs @ ys) = scaling_calls xs @ scaling_calls ys"
  "scaling_calls (Log l m # es) = scaling_calls es"
  "scaling_calls (Call c r # es) = (if is_scaling_call c then c # scaling_calls es else scaling_calls es)"
  by (simp_all add: scaling_calls_def)

section \<open>State getters and scalers\<close>

text \<open>
  C9 at a workload with zero replicas. When the read of a Deployment or a StatefulSet
  returns \<open>replicas = 0\<close>, the state getter returns \<open>{'replicas': 1}\<close>: the
  \<open>or 1\<close> of the source replaces the count zero as it replaces an unset field.
\<close>

theorem zero_replicas_read_as_one:
  "(read_namespaced_deployment env hist name namespace = Inr (Some 0) \<longrightarrow>
      fst (get_deployment_state env hist namespace name) = Inr (JDict [(''replicas'', JInt 1)])) \<and>
   (read_namespaced_stateful_set env hist name namespace = Inr (Some 0) \<longrightarrow>
      fst (get_statefulset_state env hist namespace name) = Inr (JDict [(''replicas'', JInt 1)]))"
  by (simp add: get_deployment_state_def get_statefulset_state_def replicas_or_1_def)

text \<open>In a cluster whose workloads are at zero replicas, \<open>web\<close> is read as having one.\<close>

theorem zero_replicas_read_as_one_witness:
  "read_namespaced_deployment at_zero [] ''web'' ''default'' = Inr (Some 0) \<and>
   read_namespaced_stateful_set at_zero [] ''web'' ''default'' = Inr (Some 0) \<and>
   fst (get_deployment_state at_zero [] ''default'' ''web'') = Inr (JDict [(''replicas'', JInt 1)]) \<and>
   fst (get_statefulset_state at_zero [] ''default'' ''web'') = Inr (JDict [(''replicas'', JInt 1)])"
  using zero_replicas_read_as_one [of at_zero "[]" "''web''" "''default''"]
  by (simp add: at_zero_def calm_def)

text \<open>
  Everywhere else the getters return what C9 says: a non-zero replica count as it is,
  one replica for an unset field, the suspend flag as it is, and \<open>False\<close> for an unset
  flag.
\<close>

lemma state_getters_otherwise:
  "read_namespaced_deployment env hist name namespace = Inr (Some n) \<Longrightarrow> n \<noteq> 0 \<Longrightarrow>
     fst (get_deployment_state env hist namespace name) = Inr (JDict [(''replicas'', JInt n)])"
  "read_namespaced_deployment env hist name namespace = Inr None \<Longrightarrow>
     fst (get_deployment_state env hist namespace name) = Inr (JDict [(''replicas'', JInt 1)])"
  "read_namespaced_stateful_set env hist name namespace = Inr (Some n) \<Longrightarrow> n \<noteq> 0 \<Longrightarrow>
     fst (get_statefulset_state env hist namespace name) = Inr (JDict [(''replicas'', JInt n)])"
  "read_namespaced_stateful_set env hist name namespace = Inr None \<Longrightarrow>
     fst (get_statefulset_state env hist namespace name) = Inr (JDict [(''replicas'', JInt 1)])"
  "read_namespaced_cron_job env hist name namespace = Inr (Some b) \<Longrightarrow>
     fst (get_cronjob_state env hist namespace name) = Inr (JDict [(''suspend'', JBool b)])"
  "read_namespaced_cron_job env hist name namespace = Inr None \<Longrightarrow>
     fst (get_cronjob_state env hist namespace name) = Inr (JDict [(''suspend'', JBool False)])"
  by (simp_all add: get_deployment_state_def get_statefulset_state_def get_cronjob_state_def
        replicas_or_1_def suspend_or_False_def)



section \<open>Retention\<close>





lemma web_selector:
  "label_selector Deployment ''web'' =
     ''app.kubernetes.io/managed-by=kubescaler,resource-kind=Deployment,resource-name=web''"
  by (simp add: label_selector_def OPERATOR_LABEL_def OPERATOR_VALUE_def)











section \<open>Processing one resource\<close>

text \<open>
  What each function adds to the history: the pruning, the restore lookup and the state
  getters issue no scaling call, a scaler at most one, and a scaler going down exactly
  the down call of its kind.
\<close>

lemma delete_cms_events:
  "\<exists>es. snd (delete_cms env hist namespace cms) = hist @ es \<and> scaling_calls es = []"
proof (induction cms arbitrary: hist)
  case Nil
  show ?case by simp
next
  case (Cons cm cms)
  let ?h1 = "hist @ [Log INFO ''Pruning old backup ConfigMap'']"
  let ?r = "delete_namespaced_config_map env ?h1 (cm_name cm) namespace"
  let ?h2 = "?h1 @ [Call (DeleteConfigMap (cm_name cm) namespace) ?r]"
  show ?case
  proof (cases ?r)
    case None
    from Cons.IH [of ?h2] obtain es where
      "snd (delete_cms env ?h2 namespace cms) = ?h2 @ es" "scaling_calls es = []" by blast
    with None show ?thesis by (simp add: Let_def)
  next
    case (Some e)
    show ?thesis
    proof (cases "\<exists>status. e = ApiException status")
      case True
      then obtain status where e: "e = ApiException status" by blast
      let ?h3 = "?h2 @ [Log ERROR ''Failed to delete ConfigMap'']"
      from Cons.IH [of ?h3] obtain es where
        "snd (delete_cms env ?h3 namespace cms) = ?h3 @ es" "scaling_calls es = []" by blast
      with Some e show ?thesis by (simp add: Let_def)
    next
      case False
      with Some show ?thesis by (cases e) (simp_all add: Let_def)
    qed
  qed
qed

lemma prune_old_backups_events:
  "\<exists>es. snd (prune_old_backups env hist namespace kind name) = hist @ es \<and> scaling_calls es = []"
proof (cases "MAX_BACKUPS_TO_RETAIN env \<le> 0")
  case True
  then show ?thesis by (simp add: prune_old_backups_def)
next
  case False
  show ?thesis
  proof (cases "list_namespaced_config_map env hist namespace (label_selector kind name)")
    case (Inl e)
    with False show ?thesis
      by (cases e) (simp_all add: prune_old_backups_def)
  next
    case (Inr items)
    let ?h1 = "hist @ [Call (ListConfigMap namespace (label_selector kind name)) None]"
    show ?thesis
    proof (cases "int (length items) \<le> MAX_BACKUPS_TO_RETAIN env")
      case True
      with False Inr show ?thesis by (simp add: prune_old_backups_def)
    next
      case big: False
      show ?thesis
      proof (cases "cms_to_delete (MAX_BACKUPS_TO_RETAIN env) items")
        case (Inl e)
        with False Inr big show ?thesis by (simp add: prune_old_backups_def)
      next
        case sel: (Inr cms)
        from delete_cms_events [of env ?h1 namespace cms] obtain es where
          "snd (delete_cms env ?h1 namespace cms) = ?h1 @ es" "scaling_calls es = []" by blast
        with False Inr big sel show ?thesis by (simp add: prune_old_backups_def)
      qed
    qed
  qed
qed

lemma backup_state_events:
  "\<exists>r es. snd (backup_state env hist namespace kind name state) =
            hist @ Call (CreateConfigMap namespace
                           (backup_body namespace kind name state (utc_now env hist))) r # es \<and>
          r = create_namespaced_config_map env hist namespace
                (backup_body namespace kind name state (utc_now env hist)) \<and>
          scaling_calls es = []"
proof -
  let ?body = "backup_body namespace kind name state (utc_now env hist)"
  let ?r = "create_namespaced_config_map env hist namespace ?body"
  let ?h1 = "hist @ [Call (CreateConfigMap namespace ?body) ?r]"
  show ?thesis
  proof (cases ?r)
    case None
    let ?h2 = "?h1 @ [Log INFO ''State saved in ConfigMap'']"
    from prune_old_backups_events [of env ?h2 namespace kind name] obtain es where
      es: "snd (prune_old_backups env ?h2 namespace kind name) = ?h2 @ es" "scaling_calls es = []"
      by blast
    obtain res where res: "prune_old_backups env ?h2 namespace kind name = (res, ?h2 @ es)"
      using es(1) by (cases "prune_old_backups env ?h2 namespace kind name") simp
    show ?thesis
    proof (cases res)
      case (Inl e)
      with None res es(2) show ?thesis
        by (cases e) (simp_all add: backup_state_def Let_def)
    next
      case (Inr u)
      with None res es(2) show ?thesis
        by (simp add: backup_state_def Let_def)
    qed
  next
    case (Some e)
    then show ?thesis
      by (cases e) (simp_all add: backup_state_def Let_def)
  qed
qed

lemma state_getter_events:
  "\<exists>c r. snd (state_getter_of kind env hist namespace name) = hist @ [Call c r] \<and> \<not> is_scaling_call c"
proof (cases kind)
  case Deployment
  then show ?thesis
    by (auto simp: get_deployment_state_def split: sum.split exn.split)
next
  case StatefulSet
  then show ?thesis
    by (auto simp: get_statefulset_state_def split: sum.split exn.split)
next
  case HorizontalPodAutoscaler
  then show ?thesis
    by (auto simp: get_hpa_state_def split: sum.split exn.split)
next
  case CronJob
  then show ?thesis
    by (auto simp: get_cronjob_state_def split: sum.split exn.split)
qed

lemma scaler_down_events:
  "\<exists>es. snd (scaler_of kind env hist namespace name ''down'' state) = hist @ es \<and>
        scaling_calls es = [down_call kind namespace name]"
proof (cases kind)
  case Deployment
  then show ?thesis
    by (auto simp: scale_deployment_def Let_def split: option.split exn.split)
next
  case StatefulSet
  then show ?thesis
    by (auto simp: scale_statefulset_def Let_def split: option.split exn.split)
next
  case HorizontalPodAutoscaler
  then show ?thesis
    by (auto simp: scale_hpa_def Let_def split: option.split exn.split)
next
  case CronJob
  then show ?thesis
    by (auto simp: scale_cronjob_def Let_def split: option.split exn.split)
qed

lemma scaler_events:
  "\<exists>es. snd (scaler_of kind env hist namespace name direction state) = hist @ es \<and>
        length (scaling_calls es) \<le> 1"
proof (cases kind)
  case Deployment
  then show ?thesis
    by (auto simp: scale_deployment_def Let_def split: option.split exn.split sum.split)
next
  case StatefulSet
  then show ?thesis
    by (auto simp: scale_statefulset_def Let_def split: option.split exn.split sum.split)
next
  case HorizontalPodAutoscaler
  then show ?thesis
    by (auto simp: scale_hpa_def Let_def split: option.split exn.split sum.split bool.split)
next
  case CronJob
  then show ?thesis
    by (auto simp: scale_cronjob_def Let_def split: option.split exn.split sum.split)
qed

lemma find_latest_backup_state_events:
  "\<exists>es. snd (find_latest_backup_state env hist namespace kind name) = hist @ es \<and>
        scaling_calls es = []"
  by (auto simp: find_latest_backup_state_def Let_def
           split: sum.split exn.split list.split option.split)

lemma scale_down_branch_events:
  "\<exists>es. scale_down_branch env hist namespace name kind (scaler_of kind) (state_getter_of kind) =
          hist @ Log INFO ''SCALING DOWN'' # es \<and>
        (scaling_calls es = [] \<or>
         (\<exists>rd st r es'.
            es = Call rd None #
                 Call (CreateConfigMap namespace
                         (backup_body namespace kind name st
                            (utc_now env (hist @ [Log INFO ''SCALING DOWN'', Call rd None])))) r # es' \<and>
            \<not> is_scaling_call rd \<and>
            fst (state_getter_of kind env (hist @ [Log INFO ''SCALING DOWN'']) namespace name) = Inr st \<and>
            scaling_calls es' = [down_call kind namespace name]))"
proof -
  let ?h1 = "hist @ [Log INFO ''SCALING DOWN'']"
  obtain res1 h2 where g: "state_getter_of kind env ?h1 namespace name = (res1, h2)"
    by (cases "state_getter_of kind env ?h1 namespace name")
  from state_getter_events [of kind env ?h1 namespace name] g obtain rd rr where
    h2: "h2 = ?h1 @ [Call rd rr]" and rd: "\<not> is_scaling_call rd" by auto
  show ?thesis
  proof (cases res1)
    case (Inl e)
    with g h2 rd show ?thesis by (simp add: scale_down_branch_def)
  next
    case (Inr st)
    show ?thesis
    proof (cases "truthy st")
      case False
      with g h2 rd Inr show ?thesis by (simp add: scale_down_branch_def)
    next
      case True
      have rr: "rr = None"
      proof (rule ccontr)
        assume "rr \<noteq> None"
        then obtain e where e: "rr = Some e" by auto
        from g h2 Inr True e show False
          by (cases kind; cases e)
             (auto simp: get_deployment_state_def get_statefulset_state_def get_hpa_state_def
                get_cronjob_state_def split: sum.splits exn.splits)
      qed
      obtain res2 h3 where b: "backup_state env h2 namespace kind name st = (res2, h3)"
        by (cases "backup_state env h2 namespace kind name st")
      from backup_state_events [of env h2 namespace kind name st] b obtain r es2 where
        h3: "h3 = h2 @ Call (CreateConfigMap namespace
                               (backup_body namespace kind name st (utc_now env h2))) r # es2"
        and es2: "scaling_calls es2 = []" by auto
      show ?thesis
      proof (cases res2)
        case (Inl e)
        with g h2 rd Inr True b h3 es2 show ?thesis by (simp add: scale_down_branch_def)
      next
        case u: (Inr u)
        obtain res3 h4 where s: "scaler_of kind env h3 namespace name ''down'' JNull = (res3, h4)"
          by (cases "scaler_of kind env h3 namespace name ''down'' JNull")
        from scaler_down_events [of kind env h3 namespace name JNull] s obtain es3 where
          h4: "h4 = h3 @ es3" and es3: "scaling_calls es3 = [down_call kind namespace name]" by auto
        have "scale_down_branch env hist namespace name kind (scaler_of kind) (state_getter_of kind) =
                (case res3 of Inl e \<Rightarrow> h4 @ [Log ERROR ''Failed to scale down''] | Inr u \<Rightarrow> h4)"
          using g Inr True b u s by (simp add: scale_down_branch_def)
        with h2 rr h3 h4 rd es2 es3 g Inr show ?thesis
          by (cases res3) auto
      qed
    qed
  qed
qed

lemma scale_up_branch_events:
  "\<exists>es. scale_up_branch env hist namespace name kind (scaler_of kind) = hist @ es \<and>
        length (scaling_calls es) \<le> 1"
proof -
  let ?h1 = "hist @ [Log INFO ''SCALING UP'']"
  obtain res1 h2 where f: "find_latest_backup_state env ?h1 namespace kind name = (res1, h2)"
    by (cases "find_latest_backup_state env ?h1 namespace kind name")
  from find_latest_backup_state_events [of env ?h1 namespace kind name] f obtain es1 where
    h2: "h2 = ?h1 @ es1" and es1: "scaling_calls es1 = []" by auto
  show ?thesis
  proof (cases res1)
    case (Inl e)
    with f h2 es1 show ?thesis by (simp add: scale_up_branch_def)
  next
    case (Inr st)
    show ?thesis
    proof (cases "truthy st")
      case False
      with f h2 es1 Inr show ?thesis by (simp add: scale_up_branch_def)
    next
      case True
      obtain res2 h3 where s: "scaler_of kind env h2 namespace name ''up'' st = (res2, h3)"
        by (cases "scaler_of kind env h2 namespace name ''up'' st")
      from scaler_events [of kind env h2 namespace name "''up''" st] s obtain es2 where
        h3: "h3 = h2 @ es2" and es2: "length (scaling_calls es2) \<le> 1" by auto
      from f Inr True s h2 h3 es1 es2 show ?thesis
        by (cases res2) (simp_all add: scale_up_branch_def)
    qed
  qed
qed

lemmas annotation_names = ANNOTATION_NS_CONTROL_def ANNOTATION_SCALE_UP_def ANNOTATION_SCALE_DOWN_def

lemma nine_active: "is_schedule_active db (Some (uni ''09:00'')) friday_0900"
proof -
  have p: "schedule_parts db (uni ''09:00'') = [uni ''09:00'']"
    by (simp add: schedule_parts_def char_class_defs)
  have "parse_schedule db (uni ''09:00'') = wildcards\<lparr>time_spec := Some (uni ''09:00'')\<rparr>"
    by (simp add: parse_schedule_def p [unfolded uni_def, simplified] time_part_def other_parts_def
          uni_def cp_def)
  then show ?thesis
    by (simp add: is_schedule_active_def schedule_matches_def wildcards_def strftime_defs
          friday_0900_def str_nat_examples uni_def)
qed

lemma web_annotations:
  "annotations_of web_down ANNOTATION_NS_CONTROL = None"
  "annotations_of web_down ANNOTATION_SCALE_DOWN = Some (uni ''09:00'')"
  "annotations_of web_up ANNOTATION_NS_CONTROL = None"
  "annotations_of web_up ANNOTATION_SCALE_DOWN = None"
  "annotations_of web_up ANNOTATION_SCALE_UP = Some (uni ''09:00'')"
  "annotations_of web_both ANNOTATION_NS_CONTROL = None"
  "annotations_of web_both ANNOTATION_SCALE_DOWN = Some (uni ''09:00'')"
  "annotations_of web_both ANNOTATION_SCALE_UP = Some (uni ''09:00'')"
  by (simp_all add: annotations_of_def web_down_def web_up_def web_both_def annotation_names)

lemma web_names [simp]: "res_name web_down = ''web''" "res_name web_up = ''web''" "res_name web_both = ''web''"
  by (simp_all add: web_down_def web_up_def web_both_def)

lemma web_backup_body:
  "backup_body ''default'' Deployment ''web'' (JDict [(''replicas'', JInt 4)]) friday_0900 = web_backup"
  by (simp add: backup_body_def backup_cm_name_def backup_key_name_def CONFIGMAP_PREFIX_def
        OPERATOR_LABEL_def OPERATOR_VALUE_def json_dumps_def lower_kind_def lower_kind_c_def web_backup_def
        strftime_backup_def pad2_def pad4_def friday_0900_def str_nat.simps digit_c_def)

lemma scale_down_example:
  "process_single_resource calm [] ''default'' web_down Deployment friday_0900
     scale_deployment get_deployment_state =
   [Log INFO ''SCALING DOWN'',
    Call (ReadDeployment ''web'' ''default'') None,
    Call (CreateConfigMap ''default'' web_backup) None,
    Log INFO ''State saved in ConfigMap'',
    Call (ListConfigMap ''default'' (label_selector Deployment ''web'')) None,
    Call (PatchDeployment ''web'' ''default'' (JDict [(''spec'', JDict [(''replicas'', JInt 0)])])) None,
    Log INFO ''Patched Deployment replicas'']"
  by (simp add: process_single_resource_def Let_def web_annotations nine_active scale_down_branch_def
        get_deployment_state_def replicas_or_1_def backup_state_def web_backup_body
        prune_old_backups_def scale_deployment_def calm_def)

text \<open>
  The order of a scale-down. Whenever the processing of a resource whose scale-down
  schedule is active issues a scaling call, the run reads: the state getter returns a
  state, the request to create the backup ConfigMap holding that state follows at once,
  and the one scaling call, the down call of the kind, comes after that request.
\<close>

lemma scale_down_order:
  assumes down: "is_schedule_active (unicode env) (annotations_of resource ANNOTATION_SCALE_DOWN) now_utc"
      and scaled: "scaling_calls (new_events hist
                     (process_single_resource env hist namespace resource kind now_utc
                        (scaler_of kind) (state_getter_of kind))) \<noteq> []"
  shows "\<exists>rd st r es.
           new_events hist
             (process_single_resource env hist namespace resource kind now_utc
                (scaler_of kind) (state_getter_of kind)) =
             Log INFO ''SCALING DOWN'' # Call rd None #
             Call (CreateConfigMap namespace
                     (backup_body namespace kind (res_name resource) st
                        (utc_now env (hist @ [Log INFO ''SCALING DOWN'', Call rd None])))) r # es \<and>
           \<not> is_scaling_call rd \<and>
           fst (state_getter_of kind env (hist @ [Log INFO ''SCALING DOWN'']) namespace
                  (res_name resource)) = Inr st \<and>
           scaling_calls es = [down_call kind namespace (res_name resource)]"
proof -
  let ?run = "process_single_resource env hist namespace resource kind now_utc
                (scaler_of kind) (state_getter_of kind)"
  from scaled have enabled: "annotations_of resource ANNOTATION_NS_CONTROL \<noteq> Some (uni ''Disable'')"
    by (auto simp: process_single_resource_def Let_def)
  with down have run: "?run = scale_down_branch env hist namespace (res_name resource) kind
                               (scaler_of kind) (state_getter_of kind)"
    by (simp add: process_single_resource_def Let_def)
  from scale_down_branch_events [of env hist namespace "res_name resource" kind]
  obtain es where es: "?run = hist @ Log INFO ''SCALING DOWN'' # es"
    and alt: "scaling_calls es = [] \<or>
         (\<exists>rd st r es'.
            es = Call rd None #
                 Call (CreateConfigMap namespace
                         (backup_body namespace kind (res_name resource) st
                            (utc_now env (hist @ [Log INFO ''SCALING DOWN'', Call rd None])))) r # es' \<and>
            \<not> is_scaling_call rd \<and>
            fst (state_getter_of kind env (hist @ [Log INFO ''SCALING DOWN'']) namespace
                   (res_name resource)) = Inr st \<and>
            scaling_calls es' = [down_call kind namespace (res_name resource)])"
    unfolding run by blast
  from scaled es have "scaling_calls es \<noteq> []" by simp
  with alt es show ?thesis by auto
qed

text \<open>A scaler going down issues one call, the down call of its kind.\<close>

lemma scaler_down_calls:
  "\<exists>es. snd (scaler_of kind env hist namespace name ''down'' state) = hist @ es \<and>
        calls es = [down_call kind namespace name]"
proof (cases kind)
  case Deployment
  then show ?thesis
    by (auto simp: scale_deployment_def Let_def split: option.split exn.split)
next
  case StatefulSet
  then show ?thesis
    by (auto simp: scale_statefulset_def Let_def split: option.split exn.split)
next
  case HorizontalPodAutoscaler
  then show ?thesis
    by (auto simp: scale_hpa_def Let_def split: option.split exn.split)
next
  case CronJob
  then show ?thesis
    by (auto simp: scale_cronjob_def Let_def split: option.split exn.split)
qed

lemma scale_down_refused_example:
  "process_single_resource backup_refused [] ''default'' web_down Deployment friday_0900
     scale_deployment get_deployment_state =
   [Log INFO ''SCALING DOWN'',
    Call (ReadDeployment ''web'' ''default'') None,
    Call (CreateConfigMap ''default'' web_backup) (Some (ApiException 500)),
    Log ERROR ''Failed to create backup ConfigMap'',
    Call (PatchDeployment ''web'' ''default'' (JDict [(''spec'', JDict [(''replicas'', JInt 0)])])) None,
    Log INFO ''Patched Deployment replicas'']"
  by (simp add: process_single_resource_def Let_def web_annotations nine_active scale_down_branch_def
        get_deployment_state_def replicas_or_1_def backup_state_def web_backup_body
        scale_deployment_def backup_refused_def calm_def)

text \<open>
  C1 in a cluster that refuses the backup. For a resource that is not disabled and whose
  scale-down schedule is active, when the state getter returns a state and the API
  answers the request to create the backup ConfigMap with an \<open>ApiException\<close>: the run
  logs the failure and goes on to the scaler. Its events after the read of the state are
  the refused request, the error record, and the events of the scaler, whose one call is
  the down call of the kind. The resource is scaled down and no backup of its state was
  made.
\<close>

theorem scale_down_after_failed_backup:
  assumes enabled: "annotations_of resource ANNOTATION_NS_CONTROL \<noteq> Some (uni ''Disable'')"
      and down: "is_schedule_active (unicode env) (annotations_of resource ANNOTATION_SCALE_DOWN) now_utc"
      and state: "state_getter_of kind env (hist @ [Log INFO ''SCALING DOWN'']) namespace
                    (res_name resource) = (Inr st, h2)"
      and some: "truthy st"
      and refused: "create_namespaced_config_map env h2 namespace
                      (backup_body namespace kind (res_name resource) st (utc_now env h2)) =
                    Some (ApiException status)"
  shows "\<exists>es. process_single_resource env hist namespace resource kind now_utc
                 (scaler_of kind) (state_getter_of kind) =
               h2 @ Call (CreateConfigMap namespace
                            (backup_body namespace kind (res_name resource) st (utc_now env h2)))
                         (Some (ApiException status)) #
                    Log ERROR ''Failed to create backup ConfigMap'' # es \<and>
              calls es = [down_call kind namespace (res_name resource)]"
proof -
  let ?name = "res_name resource"
  let ?body = "backup_body namespace kind ?name st (utc_now env h2)"
  let ?h3 = "h2 @ [Call (CreateConfigMap namespace ?body) (Some (ApiException status)),
                   Log ERROR ''Failed to create backup ConfigMap'']"
  from enabled down
  have run: "process_single_resource env hist namespace resource kind now_utc
               (scaler_of kind) (state_getter_of kind) =
             scale_down_branch env hist namespace ?name kind (scaler_of kind) (state_getter_of kind)"
    by (simp add: process_single_resource_def Let_def)
  from refused have b: "backup_state env h2 namespace kind ?name st = (Inr (), ?h3)"
    by (simp add: backup_state_def Let_def)
  obtain res3 h4 where s: "scaler_of kind env ?h3 namespace ?name ''down'' JNull = (res3, h4)"
    by (cases "scaler_of kind env ?h3 namespace ?name ''down'' JNull")
  from scaler_down_calls [of kind env ?h3 namespace ?name JNull] s obtain es3 where
    h4: "h4 = ?h3 @ es3" and es3: "calls es3 = [down_call kind namespace ?name]" by auto
  have "scale_down_branch env hist namespace ?name kind (scaler_of kind) (state_getter_of kind) =
          (case res3 of Inl e \<Rightarrow> h4 @ [Log ERROR ''Failed to scale down''] | Inr u \<Rightarrow> h4)"
    using state some b s by (simp add: scale_down_branch_def)
  with run h4 es3 show ?thesis
    by (cases res3) auto
qed

text \<open>
  The failing run: the cluster answers 500 to the creation of the ConfigMap, and the
  Deployment \<open>web\<close> with four replicas is patched to zero replicas with no backup made.
\<close>

theorem scale_down_after_failed_backup_witness:
  "annotations_of web_down ANNOTATION_NS_CONTROL \<noteq> Some (uni ''Disable'') \<and>
   is_schedule_active (unicode backup_refused) (annotations_of web_down ANNOTATION_SCALE_DOWN) friday_0900 \<and>
   truthy (JDict [(''replicas'', JInt 4)]) \<and>
   process_single_resource backup_refused [] ''default'' web_down Deployment friday_0900
     (scaler_of Deployment) (state_getter_of Deployment) =
   [Log INFO ''SCALING DOWN'',
    Call (ReadDeployment ''web'' ''default'') None,
    Call (CreateConfigMap ''default'' web_backup) (Some (ApiException 500)),
    Log ERROR ''Failed to create backup ConfigMap'',
    Call (PatchDeployment ''web'' ''default'' (JDict [(''spec'', JDict [(''replicas'', JInt 0)])])) None,
    Log INFO ''Patched Deployment replicas''] \<and>
   (\<exists>es. process_single_resource backup_refused [] ''default'' web_down Deployment friday_0900
            (scaler_of Deployment) (state_getter_of Deployment) =
          [Log INFO ''SCALING DOWN'', Call (ReadDeployment ''web'' ''default'') None] @
          Call (CreateConfigMap ''default''
                  (backup_body ''default'' Deployment (res_name web_down) (JDict [(''replicas'', JInt 4)])
                     (utc_now backup_refused
                        [Log INFO ''SCALING DOWN'', Call (ReadDeployment ''web'' ''default'') None])))
               (Some (ApiException 500)) #
          Log ERROR ''Failed to create backup ConfigMap'' # es \<and>
        calls es = [down_call Deployment ''default'' (res_name web_down)])"
proof -
  let ?h2 = "[Log INFO ''SCALING DOWN'', Call (ReadDeployment ''web'' ''default'') None]"
  let ?st = "JDict [(''replicas'', JInt 4)]"
  have a: "annotations_of web_down ANNOTATION_NS_CONTROL \<noteq> Some (uni ''Disable'')"
    and b: "is_schedule_active (unicode backup_refused)
              (annotations_of web_down ANNOTATION_SCALE_DOWN) friday_0900"
    by (simp_all add: web_annotations nine_active)
  have c: "state_getter_of Deployment backup_refused ([] @ [Log INFO ''SCALING DOWN'']) ''default''
             (res_name web_down) = (Inr ?st, ?h2)"
    by (simp add: get_deployment_state_def replicas_or_1_def backup_refused_def calm_def)
  have d: "truthy ?st"
    by simp
  have e: "create_namespaced_config_map backup_refused ?h2 ''default''
             (backup_body ''default'' Deployment (res_name web_down) ?st (utc_now backup_refused ?h2)) =
           Some (ApiException 500)"
    by (simp add: backup_refused_def)
  have t: "process_single_resource backup_refused [] ''default'' web_down Deployment friday_0900
     (scaler_of Deployment) (state_getter_of Deployment) =
   [Log INFO ''SCALING DOWN'',
    Call (ReadDeployment ''web'' ''default'') None,
    Call (CreateConfigMap ''default'' web_backup) (Some (ApiException 500)),
    Log ERROR ''Failed to create backup ConfigMap'',
    Call (PatchDeployment ''web'' ''default'' (JDict [(''spec'', JDict [(''replicas'', JInt 0)])])) None,
    Log INFO ''Patched Deployment replicas'']"
    by (simp add: scale_down_refused_example)
  from a b d t scale_down_after_failed_backup [OF a b c d e] show ?thesis
    by blast
qed

text \<open>
  C3. The processing of one resource issues at most one scaling call. When the
  scale-down schedule is active, that call can only be the down call of the kind, and the
  run is the same whatever the scale-up annotation is, present or absent.
\<close>

theorem one_direction_per_resource:
  "length (scaling_calls (new_events hist
     (process_single_resource env hist namespace resource kind now_utc
        (scaler_of kind) (state_getter_of kind)))) \<le> 1 \<and>
   (is_schedule_active (unicode env) (annotations_of resource ANNOTATION_SCALE_DOWN) now_utc \<longrightarrow>
      set (scaling_calls (new_events hist
        (process_single_resource env hist namespace resource kind now_utc
           (scaler_of kind) (state_getter_of kind)))) \<subseteq> {down_call kind namespace (res_name resource)} \<and>
      process_single_resource env hist namespace
        (resource\<lparr>res_annotations := Some ((annotations_of resource)(ANNOTATION_SCALE_UP := up))\<rparr>)
        kind now_utc (scaler_of kind) (state_getter_of kind) =
      process_single_resource env hist namespace resource kind now_utc
        (scaler_of kind) (state_getter_of kind))"
proof -
  let ?run = "process_single_resource env hist namespace resource kind now_utc
                (scaler_of kind) (state_getter_of kind)"
  from scale_down_branch_events [of env hist namespace "res_name resource" kind]
  obtain ds where ds: "scale_down_branch env hist namespace (res_name resource) kind
                         (scaler_of kind) (state_getter_of kind) = hist @ Log INFO ''SCALING DOWN'' # ds"
    and dsc: "scaling_calls ds = [] \<or> scaling_calls ds = [down_call kind namespace (res_name resource)]"
    by auto
  from scale_up_branch_events [of env hist namespace "res_name resource" kind]
  obtain us where us: "scale_up_branch env hist namespace (res_name resource) kind (scaler_of kind) = hist @ us"
    and usc: "length (scaling_calls us) \<le> 1"
    by auto
  have one: "length (scaling_calls (new_events hist ?run)) \<le> 1"
    using ds dsc us usc by (auto simp: process_single_resource_def Let_def)
  have down_only: "set (scaling_calls (new_events hist ?run)) \<subseteq> {down_call kind namespace (res_name resource)}"
    if "is_schedule_active (unicode env) (annotations_of resource ANNOTATION_SCALE_DOWN) now_utc"
    using that ds dsc by (auto simp: process_single_resource_def Let_def)
  have same: "process_single_resource env hist namespace
        (resource\<lparr>res_annotations := Some ((annotations_of resource)(ANNOTATION_SCALE_UP := up))\<rparr>)
        kind now_utc (scaler_of kind) (state_getter_of kind) = ?run"
    if "is_schedule_active (unicode env) (annotations_of resource ANNOTATION_SCALE_DOWN) now_utc"
    using that by (simp add: process_single_resource_def Let_def annotations_of_def annotation_names)
  from one down_only same show ?thesis by blast
qed

lemma both_example:
  "process_single_resource calm [] ''default'' web_both HorizontalPodAutoscaler friday_0900
     scale_hpa get_hpa_state =
   [Log INFO ''SCALING DOWN'',
    Call (ReadHPA ''web'' ''default'') None,
    Call (CreateConfigMap ''default''
            (backup_body ''default'' HorizontalPodAutoscaler ''web''
               (JDict [(''spec'', JDict [(''maxReplicas'', JInt 5)])]) friday_0900)) None,
    Log INFO ''State saved in ConfigMap'',
    Call (ListConfigMap ''default'' (label_selector HorizontalPodAutoscaler ''web'')) None,
    Log INFO ''Deleting HPA'',
    Call (DeleteHPA ''web'' ''default'') None]"
  by (simp add: process_single_resource_def Let_def web_annotations nine_active scale_down_branch_def
        get_hpa_state_def backup_state_def prune_old_backups_def scale_hpa_def calm_def)

text \<open>
  An autoscaler whose two schedules are both active at 09:00 is deleted, and the run is
  the same without its scale-up annotation.
\<close>

theorem one_direction_per_resource_witness:
  "is_schedule_active (unicode calm) (annotations_of web_both ANNOTATION_SCALE_DOWN) friday_0900 \<and>
   is_schedule_active (unicode calm) (annotations_of web_both ANNOTATION_SCALE_UP) friday_0900 \<and>
   scaling_calls (new_events []
     (process_single_resource calm [] ''default'' web_both HorizontalPodAutoscaler friday_0900
        (scaler_of HorizontalPodAutoscaler) (state_getter_of HorizontalPodAutoscaler))) =
     [DeleteHPA ''web'' ''default''] \<and>
   process_single_resource calm [] ''default''
     (web_both\<lparr>res_annotations := Some ((annotations_of web_both)(ANNOTATION_SCALE_UP := None))\<rparr>)
     HorizontalPodAutoscaler friday_0900
     (scaler_of HorizontalPodAutoscaler) (state_getter_of HorizontalPodAutoscaler) =
   process_single_resource calm [] ''default'' web_both HorizontalPodAutoscaler friday_0900
     (scaler_of HorizontalPodAutoscaler) (state_getter_of HorizontalPodAutoscaler)"
proof -
  have a: "is_schedule_active (unicode calm) (annotations_of web_both ANNOTATION_SCALE_DOWN) friday_0900"
    and b: "is_schedule_active (unicode calm) (annotations_of web_both ANNOTATION_SCALE_UP) friday_0900"
    by (simp_all add: web_annotations nine_active)
  have s: "scaling_calls (new_events []
     (process_single_resource calm [] ''default'' web_both HorizontalPodAutoscaler friday_0900
        (scaler_of HorizontalPodAutoscaler) (state_getter_of HorizontalPodAutoscaler))) =
     [DeleteHPA ''web'' ''default'']"
    by (simp add: both_example new_events_def)
  from a b s one_direction_per_resource
    [of "[]" calm "''default''" web_both HorizontalPodAutoscaler friday_0900 None]
  show ?thesis by blast
qed

text \<open>
  C6. For a resource that is not disabled, whose scale-down schedule is not active and
  whose scale-up schedule is, in a cluster that lists no backup for it: the run logs the
  warning that no backup state was found, and its only API call is the listing of the
  backups; no scaler is called.
\<close>

theorem no_backup_no_scale_up:
  assumes enabled: "annotations_of resource ANNOTATION_NS_CONTROL \<noteq> Some (uni ''Disable'')"
      and not_down: "\<not> is_schedule_active (unicode env) (annotations_of resource ANNOTATION_SCALE_DOWN) now_utc"
      and up: "is_schedule_active (unicode env) (annotations_of resource ANNOTATION_SCALE_UP) now_utc"
      and none: "\<And>h. list_namespaced_config_map env h namespace
                       (label_selector kind (res_name resource)) = Inr []"
  shows "logs WARNING (new_events hist
           (process_single_resource env hist namespace resource kind now_utc
              scaler_func state_getter_func)) = [''No backup state found. Cannot scale up''] \<and>
         calls (new_events hist
           (process_single_resource env hist namespace resource kind now_utc
              scaler_func state_getter_func)) =
           [ListConfigMap namespace (label_selector kind (res_name resource))]"
  using enabled not_down up
  by (simp add: process_single_resource_def Let_def scale_up_branch_def find_latest_backup_state_def none)

text \<open>The Deployment \<open>web\<close> with a scale-up schedule, in the calm cluster, which has no backup.\<close>

theorem no_backup_no_scale_up_witness:
  "annotations_of web_up ANNOTATION_NS_CONTROL \<noteq> Some (uni ''Disable'') \<and>
   \<not> is_schedule_active (unicode calm) (annotations_of web_up ANNOTATION_SCALE_DOWN) friday_0900 \<and>
   is_schedule_active (unicode calm) (annotations_of web_up ANNOTATION_SCALE_UP) friday_0900 \<and>
   logs WARNING (new_events []
     (process_single_resource calm [] ''default'' web_up Deployment friday_0900
        (scaler_of Deployment) (state_getter_of Deployment))) =
     [''No backup state found. Cannot scale up''] \<and>
   calls (new_events []
     (process_single_resource calm [] ''default'' web_up Deployment friday_0900
        (scaler_of Deployment) (state_getter_of Deployment))) =
     [ListConfigMap ''default'' (label_selector Deployment (res_name web_up))]"
proof -
  have a: "annotations_of web_up ANNOTATION_NS_CONTROL \<noteq> Some (uni ''Disable'')"
    and c: "is_schedule_active (unicode calm) (annotations_of web_up ANNOTATION_SCALE_UP) friday_0900"
    by (simp_all add: web_annotations nine_active)
  have b: "\<not> is_schedule_active (unicode calm) (annotations_of web_up ANNOTATION_SCALE_DOWN) friday_0900"
    by (simp add: web_annotations is_schedule_active_def)
  have d: "\<And>h. list_namespaced_config_map calm h ''default''
                  (label_selector Deployment (res_name web_up)) = Inr []"
    by (simp add: calm_def)
  from a b c no_backup_no_scale_up [OF a b c d, of "[]" "scaler_of Deployment" "state_getter_of Deployment"]
  show ?thesis by blast
qed

end
